theory Spec2Isabelle
  imports Complex_Main "HOL-Library.AList"
begin

section \<open>Python values used by \<^verbatim>\<open>pytext/task/tasks.py\<close>\<close>

text \<open>
  The exceptions the modelled code can raise: a failed \<^verbatim>\<open>assert\<close>, a list index out of
  range, a missing dictionary key, and the validation error of a configuration that
  lacks a required field.
\<close>

datatype py_error = AssertionError | IndexError | KeyError | ConfigError string

text \<open>
  Python list indexing \<^verbatim>\<open>xs[i]\<close>: a negative index counts from the end, anything
  outside \<open>[-len, len)\<close> raises \<^verbatim>\<open>IndexError\<close>.
\<close>

definition py_index :: "'a list \<Rightarrow> int \<Rightarrow> py_error + 'a" where
  "py_index xs i =
     (if 0 \<le> i \<and> i < int (length xs) then Inr (xs ! nat i)
      else if - int (length xs) \<le> i \<and> i < 0 then Inr (xs ! nat (int (length xs) + i))
      else Inl IndexError)"

text \<open>
  A Python \<^verbatim>\<open>dict\<close> is an association list with pairwise distinct keys, in insertion
  order. Storing under a key that is already present replaces the value in place
  (\<open>AList.update\<close>). A dictionary comprehension \<^verbatim>\<open>{k: v for k, v in kvs}\<close> stores the
  pairs from left to right into the empty dictionary.
\<close>

type_synonym ('k, 'v) dict = "('k \<times> 'v) list"

definition dict_comp :: "('k \<times> 'v) list \<Rightarrow> ('k, 'v) dict" where
  "dict_comp kvs = fold (\<lambda>(k, v) d. AList.update k v d) kvs []"

text \<open>
  A generator, run to its end: it yields a value and goes on, or is exhausted
  (\<open>Done\<close>), or raises (\<open>Raise\<close>). Nothing is yielded after an exception.
\<close>

datatype 'a gen = Done | Raise py_error | Yield 'a "'a gen"

fun yielded :: "'a gen \<Rightarrow> 'a list" where
  "yielded Done = []"
| "yielded (Raise e) = []"
| "yielded (Yield x g) = x # yielded g"

fun gen_error :: "'a gen \<Rightarrow> py_error option" where
  "gen_error Done = None"
| "gen_error (Raise e) = Some e"
| "gen_error (Yield x g) = gen_error g"

text \<open>
  \<^verbatim>\<open>zip(g, h)\<close> over two generators asks \<open>g\<close> for its next value first and \<open>h\<close> only
  after \<open>g\<close> has produced one; it stops at the first that is exhausted and passes on the
  first exception it meets.
\<close>

fun zip_gen :: "'a gen \<Rightarrow> 'b gen \<Rightarrow> ('a \<times> 'b) gen" where
  "zip_gen Done h = Done"
| "zip_gen (Raise e) h = Raise e"
| "zip_gen (Yield x g) Done = Done"
| "zip_gen (Yield x g) (Raise e) = Raise e"
| "zip_gen (Yield x g) (Yield y h) = Yield (x, y) (zip_gen g h)"

fun map_gen :: "('a \<Rightarrow> 'b) \<Rightarrow> 'a gen \<Rightarrow> 'b gen" where
  "map_gen f Done = Done"
| "map_gen f (Raise e) = Raise e"
| "map_gen f (Yield x g) = Yield (f x) (map_gen f g)"

section \<open>Target metadata, context and prediction records\<close>

text \<open>
  \<^verbatim>\<open>target_meta.vocab.itos\<close> is the index-to-string table of the target vocabulary.
\<close>

record vocabulary =
  itos :: "string list"

record target_meta =
  vocab :: vocabulary

text \<open>
  The context is a dictionary from field names to per-batch values. The only field the
  formatters read is the token-range field, whose value holds one list of token ranges
  per example.
\<close>

type_synonym 't batch_context = "string \<rightharpoonup> 't list list"

text \<open>
  Modelled from the spec: \<^verbatim>\<open>DatasetFieldName.TOKEN_RANGE\<close> is declared in
  \<^verbatim>\<open>pytext.common.constants\<close>, outside this unit; it is the key of "the context's
  token-range field".
\<close>

definition TOKEN_RANGE :: string where
  "TOKEN_RANGE = ''token_range''"

text \<open>
  The records the formatters yield: \<^verbatim>\<open>{"prediction": .., "score": ..}\<close> for a document,
  the same with a \<^verbatim>\<open>"token_range"\<close> for a token, and \<^verbatim>\<open>{"intent": .., "slot": ..}\<close> for
  the joint task.
\<close>

record 's doc_record =
  prediction :: string
  score :: "(string, 's) dict"

record ('s, 't) word_record = "'s doc_record" +
  token_range :: 't

record ('s, 't) joint_record =
  intent :: "'s doc_record"
  slot :: "('s, 't) word_record list"

section \<open>\<^verbatim>\<open>DocClassificationTask.format_prediction\<close>\<close>

text \<open>
  The comprehension \<^verbatim>\<open>{n: s for n, s in zip(target_names, score.tolist())}\<close>, which the
  document formatter binds to \<^verbatim>\<open>score_with_name\<close> and the word formatter writes inline.
\<close>

definition score_with_name :: "string list \<Rightarrow> 's list \<Rightarrow> (string, 's) dict" where
  "score_with_name target_names scr = dict_comp (zip target_names scr)"

text \<open>
  The loop \<^verbatim>\<open>for prediction, score in zip(predictions, scores)\<close>: the dictionary is built
  first, then \<^verbatim>\<open>target_names[prediction.data]\<close> is read, which may raise. The loop
  variables \<^verbatim>\<open>prediction\<close> and \<^verbatim>\<open>score\<close> are written \<open>pred\<close> and \<open>scr\<close>, since the
  record fields carry those names.
\<close>

fun doc_loop :: "string list \<Rightarrow> (int \<times> 's list) list \<Rightarrow> 's doc_record gen" where
  "doc_loop target_names [] = Done"
| "doc_loop target_names ((pred, scr) # rest) =
     (let swn = score_with_name target_names scr
      in case py_index target_names pred of
           Inl e \<Rightarrow> Raise e
         | Inr name \<Rightarrow> Yield \<lparr>prediction = name, score = swn\<rparr> (doc_loop target_names rest))"

definition doc_format_prediction ::
  "int list \<Rightarrow> 's list list \<Rightarrow> 't batch_context \<Rightarrow> target_meta \<Rightarrow> 's doc_record gen" where
  "doc_format_prediction predictions scores context target_meta =
     (let target_names = itos (vocab target_meta)
      in doc_loop target_names (zip predictions scores))"

section \<open>\<^verbatim>\<open>WordTaggingTask.format_prediction\<close>\<close>

text \<open>
  The inner list comprehension over \<^verbatim>\<open>zip(prediction, score, token_ranges)\<close>. It is
  built eagerly: an exception in any element leaves no list at all.
\<close>

fun word_records ::
  "string list \<Rightarrow> (int \<times> 's list \<times> 't) list \<Rightarrow> py_error + ('s, 't) word_record list" where
  "word_records target_names [] = Inr []"
| "word_records target_names ((word_pred, word_score, tok_range) # rest) =
     (case py_index target_names word_pred of
        Inl e \<Rightarrow> Inl e
      | Inr name \<Rightarrow>
          (case word_records target_names rest of
             Inl e \<Rightarrow> Inl e
           | Inr rs \<Rightarrow>
               Inr (\<lparr>prediction = name, score = score_with_name target_names word_score,
                     token_range = tok_range\<rparr> # rs)))"

fun word_loop ::
  "string list \<Rightarrow> (int list \<times> 's list list \<times> 't list) list \<Rightarrow>
   ('s, 't) word_record list gen" where
  "word_loop target_names [] = Done"
| "word_loop target_names ((pred, scr, token_ranges) # rest) =
     (case word_records target_names (zip pred (zip scr token_ranges)) of
        Inl e \<Rightarrow> Raise e
      | Inr rs \<Rightarrow> Yield rs (word_loop target_names rest))"

definition word_format_prediction ::
  "int list list \<Rightarrow> 's list list list \<Rightarrow> 't batch_context \<Rightarrow> target_meta \<Rightarrow>
   ('s, 't) word_record list gen" where
  "word_format_prediction predictions scores context target_meta =
     (let target_names = itos (vocab target_meta)
      in case context TOKEN_RANGE of
           None \<Rightarrow> Raise KeyError
         | Some token_ranges \<Rightarrow>
             word_loop target_names (zip predictions (zip scores token_ranges)))"

section \<open>\<^verbatim>\<open>JointTextTask.format_prediction\<close>\<close>

definition joint_format_prediction ::
  "int list \<times> int list list \<Rightarrow> 's list list \<times> 's list list list \<Rightarrow> 't batch_context \<Rightarrow>
   target_meta \<times> target_meta \<Rightarrow> ('s, 't) joint_record gen" where
  "joint_format_prediction predictions scores context target_meta =
     (case predictions of (doc_preds, word_preds) \<Rightarrow>
      case scores of (doc_scores, word_scores) \<Rightarrow>
      case target_meta of (doc_target_meta, word_target_meta) \<Rightarrow>
        map_gen (\<lambda>(intent, slot). \<lparr>intent = intent, slot = slot\<rparr>)
          (zip_gen
             (doc_format_prediction doc_preds doc_scores context doc_target_meta)
             (word_format_prediction word_preds word_scores context word_target_meta)))"

section \<open>\<^verbatim>\<open>EnsembleTask.train_single_model\<close>\<close>

text \<open>
  The data handler, the trainer, the metric reporter, the optimizer and the scheduler are
  collaborators declared outside this unit. Their values are opaque here: \<open>'i\<close> is a
  batch iterator, \<open>'m\<close> the state of one sub-model, \<open>'o\<close> any other collaborator
  object, \<open>'c\<close> the training configuration and \<open>'r\<close> what the trainer returns.
\<close>

record 'i data_handler =
  get_train_iter :: "int \<Rightarrow> int \<Rightarrow> 'i"
  get_eval_iter :: 'i

text \<open>
  The seven positional arguments of one call of \<^verbatim>\<open>trainer.train_single_model\<close>, in the
  order the source passes them.
\<close>

record ('m, 'i, 'o, 'c) train_call =
  arg_train_iter :: 'i
  arg_eval_iter :: 'i
  arg_model :: 'm
  arg_metric_reporter :: 'o
  arg_train_config :: 'c
  arg_optimizer :: 'o
  arg_lr_scheduler :: 'o

text \<open>
  Modelled from the spec: \<^verbatim>\<open>Trainer.train_single_model\<close> lives in \<^verbatim>\<open>pytext.trainers\<close>,
  outside this unit. The spec gives its effect: it "mutates the targeted sub-model's
  parameters" and "does not affect sibling sub-models". So the trainer is a function from
  the call's arguments to the value it returns and the trained state of the sub-model it
  was given.

  The task holds the ensemble's sub-models (\<^verbatim>\<open>self.model.models\<close>) and its
  collaborators. \<open>trainer_calls\<close> is a log of the trainer invocations made so far, kept
  so that "the trainer was (not) invoked" can be stated.
\<close>

record ('m, 'i, 'o, 'c, 'r) ensemble_task =
  models :: "'m list"
  trainer :: "('m, 'i, 'o, 'c) train_call \<Rightarrow> 'r \<times> 'm"
  data_handler :: "'i data_handler"
  metric_reporter :: 'o
  optimizer :: 'o
  lr_scheduler :: 'o
  trainer_calls :: "('m, 'i, 'o, 'c) train_call list"

text \<open>
  \<^verbatim>\<open>def train_single_model(self, train_config, model_id, rank=0, world_size=1)\<close>. An
  omitted keyword argument is \<open>None\<close> and takes the default of the signature. The
  \<^verbatim>\<open>assert\<close> comes first; the arguments of the trainer call are evaluated from left to
  right, so \<^verbatim>\<open>self.model.models[model_id]\<close> is read after the two iterators are made.
  The function returns the outcome and the task after the call.
\<close>

definition train_single_model ::
  "('m, 'i, 'o, 'c, 'r) ensemble_task \<Rightarrow> 'c \<Rightarrow> int \<Rightarrow> int option \<Rightarrow> int option \<Rightarrow>
   (py_error + 'r) \<times> ('m, 'i, 'o, 'c, 'r) ensemble_task" where
  "train_single_model self train_config model_id rank_arg world_size_arg =
     (let rank = (case rank_arg of None \<Rightarrow> 0 | Some r \<Rightarrow> r);
          world_size = (case world_size_arg of None \<Rightarrow> 1 | Some w \<Rightarrow> w)
      in if \<not> (model_id \<ge> 0 \<and> model_id < int (length (models self)))
         then (Inl AssertionError, self)
         else
           (let train_iter = get_train_iter (data_handler self) rank world_size;
                eval_iter = get_eval_iter (data_handler self)
            in case py_index (models self) model_id of
                 Inl e \<Rightarrow> (Inl e, self)
               | Inr sub_model \<Rightarrow>
                   (let call = \<lparr>arg_train_iter = train_iter, arg_eval_iter = eval_iter,
                                 arg_model = sub_model,
                                 arg_metric_reporter = metric_reporter self,
                                 arg_train_config = train_config,
                                 arg_optimizer = optimizer self,
                                 arg_lr_scheduler = lr_scheduler self\<rparr>;
                        (result, trained) = trainer self call
                    in (Inr result,
                        self\<lparr>models := (models self)[nat model_id := trained],
                             trainer_calls := trainer_calls self @ [call]\<rparr>))))"

section \<open>The \<^verbatim>\<open>Config\<close> classes\<close>

text \<open>
  A field annotation, and a configuration value: \<^verbatim>\<open>None\<close>, a list, or an instance
  \<^verbatim>\<open>Cls(k1=v1, ..)\<close> of a configuration class. \<open>Instance c []\<close> is the default
  instance \<^verbatim>\<open>c()\<close>.
\<close>

datatype annotation =
  Cls string | OptionalT annotation | ListT annotation | UnionT annotation annotation

datatype config_value =
  PyNone | ListOf "config_value list" | Instance string "(string \<times> config_value) list"

record field_decl =
  field_name :: string
  field_type :: annotation
  field_default :: "config_value option"

datatype task_variant =
  QueryDocumentPairwiseRankingTask | EnsembleTask | DocClassificationTask | WordTaggingTask
| JointTextTask | LMTask | PairClassificationTask | SeqNNTask | ContextualIntentSlotTask
| SemanticParsingTask | KDDocClassificationTask

definition required :: "string \<Rightarrow> annotation \<Rightarrow> field_decl" where
  "required n t = \<lparr>field_name = n, field_type = t, field_default = None\<rparr>"

definition with_default :: "string \<Rightarrow> annotation \<Rightarrow> config_value \<Rightarrow> field_decl" where
  "with_default n t d = \<lparr>field_name = n, field_type = t, field_default = Some d\<rparr>"

text \<open>
  The fields each \<^verbatim>\<open>Config\<close> class body declares, in the order of the source, with the
  annotation and the default of each. The fields inherited from \<^verbatim>\<open>Task.Config\<close>, which
  is declared outside this unit, are not part of the table.
\<close>

fun config_fields :: "task_variant \<Rightarrow> field_decl list" where
  "config_fields QueryDocumentPairwiseRankingTask =
     [with_default ''features'' (Cls ''QueryDocumentPairwiseRanking.ModelInputConfig'')
        (Instance ''QueryDocumentPairwiseRanking.ModelInputConfig'' []),
      with_default ''model'' (Cls ''QueryDocumentPairwiseRankingModel.Config'')
        (Instance ''QueryDocumentPairwiseRankingModel.Config'' []),
      with_default ''data_handler'' (Cls ''QueryDocumentPairwiseRankingDataHandler.Config'')
        (Instance ''QueryDocumentPairwiseRankingDataHandler.Config'' []),
      with_default ''trainer'' (Cls ''Trainer.Config'') (Instance ''Trainer.Config'' []),
      with_default ''labels'' (OptionalT (Cls ''DocLabelConfig'')) PyNone,
      with_default ''metric_reporter'' (Cls ''PairwiseRankingMetricReporter.Config'')
        (Instance ''PairwiseRankingMetricReporter.Config'' [])]"
| "config_fields EnsembleTask =
     [required ''model''
        (UnionT (Cls ''BaggingDocEnsemble.Config'') (Cls ''BaggingIntentSlotEnsemble.Config'')),
      with_default ''trainer'' (Cls ''EnsembleTrainer.Config'')
        (Instance ''EnsembleTrainer.Config'' []),
      required ''labels'' (ListT (Cls ''TargetConfigBase'')),
      with_default ''metric_reporter''
        (UnionT (Cls ''ClassificationMetricReporter.Config'')
           (Cls ''IntentSlotMetricReporter.Config''))
        (Instance ''ClassificationMetricReporter.Config'' []),
      with_default ''data_handler'' (Cls ''JointModelDataHandler.Config'')
        (Instance ''JointModelDataHandler.Config'' [])]"
| "config_fields DocClassificationTask =
     [with_default ''model'' (Cls ''DocModel.Config'') (Instance ''DocModel.Config'' []),
      with_default ''trainer'' (Cls ''Trainer.Config'') (Instance ''Trainer.Config'' []),
      with_default ''features'' (Cls ''DocClassification.ModelInputConfig'')
        (Instance ''DocClassification.ModelInputConfig'' []),
      with_default ''labels'' (Cls ''DocClassification.TargetConfig'')
        (Instance ''DocClassification.TargetConfig'' []),
      with_default ''data_handler'' (Cls ''DocClassificationDataHandler.Config'')
        (Instance ''DocClassificationDataHandler.Config'' []),
      with_default ''metric_reporter'' (Cls ''ClassificationMetricReporter.Config'')
        (Instance ''ClassificationMetricReporter.Config'' [])]"
| "config_fields WordTaggingTask =
     [with_default ''model'' (Cls ''WordTaggingModel.Config'')
        (Instance ''WordTaggingModel.Config'' []),
      with_default ''trainer'' (Cls ''Trainer.Config'') (Instance ''Trainer.Config'' []),
      with_default ''labels'' (Cls ''WordLabelConfig'') (Instance ''WordLabelConfig'' []),
      with_default ''data_handler'' (Cls ''JointModelDataHandler.Config'')
        (Instance ''JointModelDataHandler.Config'' []),
      with_default ''metric_reporter'' (Cls ''WordTaggingMetricReporter.Config'')
        (Instance ''WordTaggingMetricReporter.Config'' [])]"
| "config_fields JointTextTask =
     [required ''labels'' (ListT (Cls ''TargetConfigBase'')),
      with_default ''model'' (Cls ''JointModel.Config'') (Instance ''JointModel.Config'' []),
      with_default ''trainer'' (Cls ''Trainer.Config'') (Instance ''Trainer.Config'' []),
      with_default ''data_handler'' (Cls ''JointModelDataHandler.Config'')
        (Instance ''JointModelDataHandler.Config'' []),
      with_default ''metric_reporter'' (Cls ''IntentSlotMetricReporter.Config'')
        (Instance ''IntentSlotMetricReporter.Config'' [])]"
| "config_fields LMTask =
     [with_default ''data_handler''
        (UnionT (Cls ''LanguageModelDataHandler.Config'')
           (Cls ''BPTTLanguageModelDataHandler.Config''))
        (Instance ''LanguageModelDataHandler.Config'' []),
      with_default ''model'' (Cls ''LMLSTM.Config'') (Instance ''LMLSTM.Config'' []),
      with_default ''trainer'' (Cls ''Trainer.Config'') (Instance ''Trainer.Config'' []),
      with_default ''labels'' (OptionalT (Cls ''WordLabelConfig'')) PyNone,
      with_default ''metric_reporter'' (Cls ''LanguageModelMetricReporter.Config'')
        (Instance ''LanguageModelMetricReporter.Config'' [])]"
| "config_fields PairClassificationTask =
     [with_default ''features'' (Cls ''PairClassification.ModelInputConfig'')
        (Instance ''PairClassification.ModelInputConfig'' []),
      with_default ''model'' (Cls ''PairClassificationModel.Config'')
        (Instance ''PairClassificationModel.Config'' []),
      with_default ''data_handler'' (Cls ''PairClassificationDataHandler.Config'')
        (Instance ''PairClassificationDataHandler.Config'' []),
      with_default ''trainer'' (Cls ''Trainer.Config'') (Instance ''Trainer.Config'' []),
      with_default ''labels'' (Cls ''PairClassification.TargetConfig'')
        (Instance ''PairClassification.TargetConfig'' []),
      with_default ''metric_reporter'' (Cls ''ClassificationMetricReporter.Config'')
        (Instance ''ClassificationMetricReporter.Config'' [])]"
| "config_fields SeqNNTask =
     [with_default ''model'' (Cls ''SeqNNModel.Config'') (Instance ''SeqNNModel.Config'' []),
      with_default ''trainer'' (Cls ''Trainer.Config'') (Instance ''Trainer.Config'' []),
      with_default ''labels'' (Cls ''DocLabelConfig'') (Instance ''DocLabelConfig'' []),
      with_default ''data_handler'' (Cls ''SeqModelDataHandler.Config'')
        (Instance ''SeqModelDataHandler.Config'' []),
      with_default ''metric_reporter'' (Cls ''ClassificationMetricReporter.Config'')
        (Instance ''ClassificationMetricReporter.Config'' [])]"
| "config_fields ContextualIntentSlotTask =
     [required ''labels'' (Cls ''ContextualIntentSlot.TargetConfig''),
      with_default ''features'' (Cls ''ContextualIntentSlot.ModelInputConfig'')
        (Instance ''ContextualIntentSlot.ModelInputConfig'' []),
      with_default ''model'' (Cls ''ContextualIntentSlotModel.Config'')
        (Instance ''ContextualIntentSlotModel.Config'' []),
      with_default ''trainer'' (Cls ''Trainer.Config'') (Instance ''Trainer.Config'' []),
      with_default ''data_handler'' (Cls ''ContextualIntentSlotModelDataHandler.Config'')
        (Instance ''ContextualIntentSlotModelDataHandler.Config'' []),
      with_default ''metric_reporter'' (Cls ''IntentSlotMetricReporter.Config'')
        (Instance ''IntentSlotMetricReporter.Config'' [])]"
| "config_fields SemanticParsingTask =
     [with_default ''model'' (Cls ''RNNGParser.Config'') (Instance ''RNNGParser.Config'' []),
      with_default ''trainer'' (Cls ''HogwildTrainer.Config'')
        (Instance ''HogwildTrainer.Config'' []),
      with_default ''data_handler'' (Cls ''CompositionalDataHandler.Config'')
        (Instance ''CompositionalDataHandler.Config'' []),
      with_default ''labels'' (OptionalT (Cls ''WordLabelConfig'')) PyNone,
      with_default ''metric_reporter'' (Cls ''CompositionalMetricReporter.Config'')
        (Instance ''CompositionalMetricReporter.Config'' [])]"
| "config_fields KDDocClassificationTask =
     [with_default ''model'' (Cls ''DocModel.Config'') (Instance ''DocModel.Config'' []),
      with_default ''trainer'' (Cls ''Trainer.Config'') (Instance ''Trainer.Config'' []),
      with_default ''features'' (Cls ''DocClassification.ModelInputConfig'')
        (Instance ''DocClassification.ModelInputConfig'' []),
      with_default ''labels'' (Cls ''KDDocClassification.TargetConfig'')
        (Instance ''KDDocClassification.TargetConfig'' []),
      with_default ''data_handler'' (Cls ''KDDocClassificationDataHandler.Config'')
        (Instance ''KDDocClassificationDataHandler.Config'' []),
      with_default ''metric_reporter'' (Cls ''ClassificationMetricReporter.Config'')
        (Instance ''ClassificationMetricReporter.Config'' [])]"

text \<open>
  Modelled from the spec: the constructor of a \<^verbatim>\<open>Config\<close> class belongs to the
  configuration framework (\<^verbatim>\<open>pytext.config\<close>), outside this unit. By the spec,
  "construction fails (validation error) if a supplied sub-configuration does not match
  one of the declared acceptable shapes for that field, or if a required field is
  omitted", and "omitting an optional field yields the documented default
  sub-configuration instance". Which values match an annotation is the framework's
  business and is the parameter \<open>matches\<close>. The error names the offending field.
\<close>

fun construct ::
  "(annotation \<Rightarrow> config_value \<Rightarrow> bool) \<Rightarrow> field_decl list \<Rightarrow> (string \<times> config_value) list \<Rightarrow>
   py_error + (string \<times> config_value) list" where
  "construct matches [] kwargs = Inr []"
| "construct matches (f # fs) kwargs =
     (case map_of kwargs (field_name f) of
        Some v \<Rightarrow>
          if matches (field_type f) v
          then (case construct matches fs kwargs of
                  Inl e \<Rightarrow> Inl e
                | Inr c \<Rightarrow> Inr ((field_name f, v) # c))
          else Inl (ConfigError (field_name f))
      | None \<Rightarrow>
          (case field_default f of
             None \<Rightarrow> Inl (ConfigError (field_name f))
           | Some d \<Rightarrow>
               (case construct matches fs kwargs of
                  Inl e \<Rightarrow> Inl e
                | Inr c \<Rightarrow> Inr ((field_name f, d) # c))))"

definition required_fields :: "task_variant \<Rightarrow> string list" where
  "required_fields v = map field_name (filter (\<lambda>f. field_default f = None) (config_fields v))"

section \<open>Notions used to state the properties\<close>

text \<open>The indices at which \<^verbatim>\<open>xs[i]\<close> does not raise.\<close>

definition valid_index :: "'a list \<Rightarrow> int \<Rightarrow> bool" where
  "valid_index xs i = (- int (length xs) \<le> i \<and> i < int (length xs))"

text \<open>
  A dictionary built from names and a score vector keeps the last score of a name: a
  position whose name does not occur again later in the zipped range holds the name's
  entry.
\<close>

definition keeps_last :: "string list \<Rightarrow> 's list \<Rightarrow> (string, 's) dict \<Rightarrow> bool" where
  "keeps_last names s d =
     (\<forall>j < min (length names) (length s).
        (\<forall>k. j < k \<and> k < min (length names) (length s) \<longrightarrow> names ! k \<noteq> names ! j) \<longrightarrow>
        map_of d (names ! j) = Some (s ! j))"

section \<open>Auxiliary facts\<close>

subsection \<open>Dictionary comprehensions\<close>

lemma update_fresh: "k \<notin> fst ` set d \<Longrightarrow> AList.update k v d = d @ [(k, v)]"
  by (induction d) auto

lemma fold_update_map_of:
  "map_of (fold (\<lambda>(k, v) d. AList.update k v d) kvs d) = map_of d ++ map_of (rev kvs)"
proof (induction kvs arbitrary: d)
  case Nil
  then show ?case by simp
next
  case (Cons kv kvs)
  obtain k v where kv: "kv = (k, v)" by (cases kv)
  have "(map_of d)(k \<mapsto> v) = map_of d ++ [k \<mapsto> v]" by simp
  then show ?case
    by (simp add: kv Cons.IH AList.update_conv' del: map_add_upd)
qed

lemma fold_update_distinct:
  "distinct (map fst d) \<Longrightarrow> distinct (map fst (fold (\<lambda>(k, v) d. AList.update k v d) kvs d))"
  by (induction kvs arbitrary: d) (auto simp: AList.distinct_update)

lemma fold_update_keys:
  "fst ` set (fold (\<lambda>(k, v) d. AList.update k v d) kvs d) = fst ` set d \<union> fst ` set kvs"
proof (induction kvs arbitrary: d)
  case Nil
  then show ?case by simp
next
  case (Cons kv kvs)
  obtain k v where kv: "kv = (k, v)" by (cases kv)
  have "fst ` set (AList.update k v d) = {k} \<union> fst ` set d" by (rule AList.dom_update)
  then show ?case by (simp add: kv Cons.IH Un_assoc)
qed

lemma fold_update_fresh:
  "distinct (map fst (d @ kvs)) \<Longrightarrow> fold (\<lambda>(k, v) d. AList.update k v d) kvs d = d @ kvs"
proof (induction kvs arbitrary: d)
  case Nil
  then show ?case by simp
next
  case (Cons kv kvs)
  obtain k v where kv: "kv = (k, v)" by (cases kv)
  from Cons.prems have fresh: "k \<notin> fst ` set d" by (auto simp: kv)
  from Cons.prems have "distinct (map fst ((d @ [(k, v)]) @ kvs))" by (simp add: kv)
  from Cons.IH [OF this] show ?case by (simp add: kv update_fresh [OF fresh])
qed

lemma map_of_dict_comp: "map_of (dict_comp kvs) = map_of (rev kvs)"
  by (simp add: dict_comp_def fold_update_map_of)

lemma distinct_dict_comp: "distinct (map fst (dict_comp kvs))"
  by (simp add: dict_comp_def fold_update_distinct)

lemma keys_dict_comp: "fst ` set (dict_comp kvs) = fst ` set kvs"
  by (simp add: dict_comp_def fold_update_keys)

lemma length_dict_comp: "length (dict_comp kvs) = card (fst ` set kvs)"
proof -
  have "length (dict_comp kvs) = length (map fst (dict_comp kvs))" by simp
  also have "\<dots> = card (set (map fst (dict_comp kvs)))"
    by (rule distinct_card [symmetric]) (rule distinct_dict_comp)
  also have "\<dots> = card (fst ` set kvs)" by (simp add: keys_dict_comp)
  finally show ?thesis .
qed

lemma dict_comp_distinct: "distinct (map fst kvs) \<Longrightarrow> dict_comp kvs = kvs"
  using fold_update_fresh [of "[]" kvs] by (simp add: dict_comp_def)

subsection \<open>List indexing\<close>

lemma py_index_valid: "valid_index xs i \<Longrightarrow> \<exists>x. py_index xs i = Inr x"
  by (auto simp: py_index_def valid_index_def Let_def)

lemma py_index_nonneg: "0 \<le> i \<Longrightarrow> i < int (length xs) \<Longrightarrow> py_index xs i = Inr (xs ! nat i)"
  by (simp add: py_index_def Let_def)

subsection \<open>The score dictionary\<close>

lemma map_of_rev_last:
  "j < length kvs \<Longrightarrow> kvs ! j = (k, v) \<Longrightarrow> (\<forall>i. j < i \<and> i < length kvs \<longrightarrow> fst (kvs ! i) \<noteq> k)
   \<Longrightarrow> map_of (rev kvs) k = Some v"
proof (induction kvs rule: rev_induct)
  case Nil
  then show ?case by simp
next
  case (snoc x kvs)
  show ?case
  proof (cases "j = length kvs")
    case True
    with snoc.prems show ?thesis by simp
  next
    case False
    with snoc.prems have j: "j < length kvs" by simp
    have "j < length kvs \<and> length kvs < length (kvs @ [x])" using j by simp
    with snoc.prems(3) have "fst ((kvs @ [x]) ! length kvs) \<noteq> k" by blast
    then have x: "fst x \<noteq> k" by simp
    have "\<forall>i. j < i \<and> i < length kvs \<longrightarrow> fst (kvs ! i) \<noteq> k"
    proof (intro allI impI)
      fix i assume i: "j < i \<and> i < length kvs"
      then have "fst ((kvs @ [x]) ! i) \<noteq> k" using snoc.prems(3) by simp
      with i show "fst (kvs ! i) \<noteq> k" by (simp add: nth_append)
    qed
    moreover from snoc.prems(2) j have "kvs ! j = (k, v)" by (simp add: nth_append)
    ultimately have "map_of (rev kvs) k = Some v" using snoc.IH j by blast
    with x show ?thesis by (cases x) auto
  qed
qed

lemma score_with_name_length: "length (score_with_name names s) = card (set (take (length s) names))"
proof -
  have "fst ` set (zip names s) = set (map fst (zip names s))" by simp
  also have "\<dots> = set (take (min (length names) (length s)) names)"
    by (simp only: map_fst_zip_take)
  also have "take (min (length names) (length s)) names = take (length s) names"
    by (simp add: min_def)
  finally show ?thesis by (simp add: score_with_name_def length_dict_comp)
qed

lemma score_with_name_length_le: "length (score_with_name names s) \<le> card (set names)"
  unfolding score_with_name_length
  by (rule card_mono) (auto dest: in_set_takeD)

lemma score_with_name_dup:
  "\<not> distinct names \<Longrightarrow> length (score_with_name names s) < length names"
proof -
  assume "\<not> distinct names"
  then have "card (set names) \<noteq> length names" using card_distinct by blast
  moreover have "card (set names) \<le> length names" by (rule card_length)
  ultimately have "card (set names) < length names" by simp
  with score_with_name_length_le [of names s] show ?thesis by simp
qed

lemma score_with_name_last:
  assumes "j < length names" "j < length s"
    and "\<forall>i. j < i \<and> i < length names \<and> i < length s \<longrightarrow> names ! i \<noteq> names ! j"
  shows "map_of (score_with_name names s) (names ! j) = Some (s ! j)"
  unfolding score_with_name_def map_of_dict_comp
  by (rule map_of_rev_last [where j = j]) (use assms in auto)

lemma score_with_name_distinct:
  "distinct names \<Longrightarrow> length s = length names \<Longrightarrow> score_with_name names s = zip names s"
  by (simp add: score_with_name_def dict_comp_distinct)

subsection \<open>Generators and the formatter loops\<close>

lemma yielded_zip_gen: "yielded (zip_gen g h) = zip (yielded g) (yielded h)"
  by (induction g h rule: zip_gen.induct) simp_all

lemma yielded_map_gen: "yielded (map_gen f g) = map f (yielded g)"
  by (induction g) simp_all

lemma doc_loop_length_le: "length (yielded (doc_loop names pss)) \<le> length pss"
proof (induction pss)
  case Nil
  then show ?case by simp
next
  case (Cons ps pss)
  then show ?case by (cases ps) (simp add: Let_def split: sum.splits)
qed

lemma doc_loop_valid:
  "\<forall>(p, s) \<in> set pss. valid_index names p \<Longrightarrow>
   gen_error (doc_loop names pss) = None \<and> length (yielded (doc_loop names pss)) = length pss"
proof (induction pss)
  case Nil
  then show ?case by simp
next
  case (Cons ps pss)
  obtain p s where ps: "ps = (p, s)" by (cases ps)
  from Cons.prems ps obtain name where "py_index names p = Inr name"
    using py_index_valid [of names p] by auto
  moreover from Cons.prems have "\<forall>(p, s) \<in> set pss. valid_index names p" by simp
  ultimately show ?case using Cons.IH ps by (simp add: Let_def)
qed

lemma zip_take_min:
  "zip xs ys = zip (take (min (length xs) (length ys)) xs) (take (min (length xs) (length ys)) ys)"
proof -
  have "zip xs ys = take (min (length xs) (length ys)) (zip xs ys)" by simp
  then show ?thesis by (simp only: take_zip)
qed

lemma doc_loop_nth:
  "i < length (yielded (doc_loop names pss)) \<Longrightarrow>
   py_index names (fst (pss ! i)) = Inr (prediction (yielded (doc_loop names pss) ! i)) \<and>
   score (yielded (doc_loop names pss) ! i) = score_with_name names (snd (pss ! i))"
proof (induction pss arbitrary: i)
  case Nil
  then show ?case by simp
next
  case (Cons ps pss)
  obtain p s where ps: "ps = (p, s)" by (cases ps)
  show ?case
  proof (cases "py_index names p")
    case (Inl e)
    with Cons.prems ps show ?thesis by simp
  next
    case (Inr name)
    show ?thesis
    proof (cases i)
      case 0
      with Inr ps show ?thesis by (simp add: Let_def)
    next
      case (Suc k)
      with Cons.prems Inr ps have "k < length (yielded (doc_loop names pss))"
        by (simp add: Let_def)
      from Cons.IH [OF this] Inr ps Suc show ?thesis by (simp add: Let_def)
    qed
  qed
qed

lemma word_records_length: "word_records names ws = Inr rs \<Longrightarrow> length rs = length ws"
proof (induction ws arbitrary: rs)
  case Nil
  then show ?case by simp
next
  case (Cons w ws)
  obtain p s t where w: "w = (p, s, t)" by (cases w)
  from Cons.prems w show ?case
    by (auto split: sum.splits dest: Cons.IH)
qed

lemma word_records_nth:
  "word_records names ws = Inr rs \<Longrightarrow> j < length ws \<Longrightarrow>
   py_index names (fst (ws ! j)) = Inr (prediction (rs ! j)) \<and>
   score (rs ! j) = score_with_name names (fst (snd (ws ! j))) \<and>
   token_range (rs ! j) = snd (snd (ws ! j))"
proof (induction ws arbitrary: rs j)
  case Nil
  then show ?case by simp
next
  case (Cons w ws)
  obtain p s t where w: "w = (p, s, t)" by (cases w)
  from Cons.prems(1) w obtain name rs' where
    name: "py_index names p = Inr name" and rs': "word_records names ws = Inr rs'" and
    rs: "rs = \<lparr>prediction = name, score = score_with_name names s, token_range = t\<rparr> # rs'"
    by (auto split: sum.splits)
  show ?case
  proof (cases j)
    case 0
    with name rs w show ?thesis by simp
  next
    case (Suc k)
    with Cons.prems(2) have "k < length ws" by simp
    from Cons.IH [OF rs' this] rs Suc show ?thesis by simp
  qed
qed

lemma word_records_valid:
  "\<forall>w \<in> set ws. valid_index names (fst w) \<Longrightarrow> \<exists>rs. word_records names ws = Inr rs"
proof (induction ws)
  case Nil
  then show ?case by simp
next
  case (Cons w ws)
  obtain p s t where w: "w = (p, s, t)" by (cases w)
  from Cons.prems w obtain name where "py_index names p = Inr name"
    using py_index_valid [of names p] by auto
  moreover from Cons.prems Cons.IH obtain rs where "word_records names ws = Inr rs" by auto
  ultimately show ?case using w by simp
qed

lemma word_loop_length_le: "length (yielded (word_loop names zs)) \<le> length zs"
proof (induction zs)
  case Nil
  then show ?case by simp
next
  case (Cons z zs)
  obtain p s t where z: "z = (p, s, t)" by (cases z)
  from Cons.IH z show ?case by (simp split: sum.splits)
qed

lemma word_loop_nth:
  "i < length (yielded (word_loop names zs)) \<Longrightarrow>
   word_records names (zip (fst (zs ! i)) (zip (fst (snd (zs ! i))) (snd (snd (zs ! i))))) =
     Inr (yielded (word_loop names zs) ! i)"
proof (induction zs arbitrary: i)
  case Nil
  then show ?case by simp
next
  case (Cons z zs)
  obtain p s t where z: "z = (p, s, t)" by (cases z)
  show ?case
  proof (cases "word_records names (zip p (zip s t))")
    case (Inl e)
    with Cons.prems z show ?thesis by simp
  next
    case (Inr rs)
    show ?thesis
    proof (cases i)
      case 0
      with Inr z show ?thesis by simp
    next
      case (Suc k)
      with Cons.prems Inr z have "k < length (yielded (word_loop names zs))" by simp
      from Cons.IH [OF this] Inr z Suc show ?thesis by simp
    qed
  qed
qed

lemma word_loop_valid:
  "\<forall>(p, s, t) \<in> set zs. \<forall>w \<in> set (zip p (zip s t)). valid_index names (fst w) \<Longrightarrow>
   gen_error (word_loop names zs) = None \<and> length (yielded (word_loop names zs)) = length zs"
proof (induction zs)
  case Nil
  then show ?case by simp
next
  case (Cons z zs)
  obtain p s t where z: "z = (p, s, t)" by (cases z)
  from Cons.prems z have "\<forall>w \<in> set (zip p (zip s t)). valid_index names (fst w)" by simp
  then obtain rs where "word_records names (zip p (zip s t)) = Inr rs"
    using word_records_valid by blast
  moreover from Cons.prems
  have "\<forall>(p, s, t) \<in> set zs. \<forall>w \<in> set (zip p (zip s t)). valid_index names (fst w)"
    by simp
  ultimately show ?case using Cons.IH z by simp
qed

lemma keeps_last_score_with_name: "keeps_last names s (score_with_name names s)"
  unfolding keeps_last_def
  by (intro allI impI score_with_name_last) auto

subsection \<open>The formatters, position by position\<close>

lemma doc_format_prediction_nth:
  assumes "i < length (yielded (doc_format_prediction ps ss ctx tm))"
  shows "i < length ps \<and> i < length ss \<and>
         py_index (itos (vocab tm)) (ps ! i) =
           Inr (prediction (yielded (doc_format_prediction ps ss ctx tm) ! i)) \<and>
         score (yielded (doc_format_prediction ps ss ctx tm) ! i) =
           score_with_name (itos (vocab tm)) (ss ! i)"
proof -
  let ?names = "itos (vocab tm)"
  from assms have i: "i < length (yielded (doc_loop ?names (zip ps ss)))"
    by (simp add: doc_format_prediction_def Let_def)
  also have "\<dots> \<le> length (zip ps ss)" by (rule doc_loop_length_le)
  finally have len: "i < length ps \<and> i < length ss" by simp
  with doc_loop_nth [OF i] show ?thesis
    by (simp add: doc_format_prediction_def Let_def)
qed

lemma word_format_prediction_nth:
  assumes "i < length (yielded (word_format_prediction ps ss ctx tm))"
  shows "\<exists>trs. ctx TOKEN_RANGE = Some trs \<and> i < length ps \<and> i < length ss \<and> i < length trs \<and>
         word_records (itos (vocab tm)) (zip (ps ! i) (zip (ss ! i) (trs ! i))) =
           Inr (yielded (word_format_prediction ps ss ctx tm) ! i)"
proof (cases "ctx TOKEN_RANGE")
  case None
  with assms show ?thesis by (simp add: word_format_prediction_def Let_def)
next
  case (Some trs)
  let ?names = "itos (vocab tm)"
  let ?zs = "zip ps (zip ss trs)"
  from assms Some have i: "i < length (yielded (word_loop ?names ?zs))"
    by (simp add: word_format_prediction_def Let_def)
  also have "\<dots> \<le> length ?zs" by (rule word_loop_length_le)
  finally have len: "i < length ps \<and> i < length ss \<and> i < length trs" by simp
  with word_loop_nth [OF i] Some show ?thesis
    by (simp add: word_format_prediction_def Let_def)
qed

lemma word_format_prediction_nth_nth:
  assumes "i < length (yielded (word_format_prediction ps ss ctx tm))"
    and "j < length (yielded (word_format_prediction ps ss ctx tm) ! i)"
  shows "\<exists>trs. ctx TOKEN_RANGE = Some trs \<and> i < length ps \<and> i < length ss \<and> i < length trs \<and>
         j < length (ps ! i) \<and> j < length (ss ! i) \<and> j < length (trs ! i) \<and>
         py_index (itos (vocab tm)) (ps ! i ! j) =
           Inr (prediction (yielded (word_format_prediction ps ss ctx tm) ! i ! j)) \<and>
         score (yielded (word_format_prediction ps ss ctx tm) ! i ! j) =
           score_with_name (itos (vocab tm)) (ss ! i ! j) \<and>
         token_range (yielded (word_format_prediction ps ss ctx tm) ! i ! j) = trs ! i ! j"
proof -
  let ?rs = "yielded (word_format_prediction ps ss ctx tm) ! i"
  from word_format_prediction_nth [OF assms(1)] obtain trs where
    trs: "ctx TOKEN_RANGE = Some trs" and len: "i < length ps" "i < length ss" "i < length trs" and
    recs: "word_records (itos (vocab tm)) (zip (ps ! i) (zip (ss ! i) (trs ! i))) = Inr ?rs"
    by blast
  from word_records_length [OF recs] assms(2)
  have j: "j < length (zip (ps ! i) (zip (ss ! i) (trs ! i)))" by simp
  from word_records_nth [OF recs j] j trs len show ?thesis by simp
qed

lemma zip3_take_min:
  "zip xs (zip ys zs) =
   zip (take (min (length xs) (min (length ys) (length zs))) xs)
     (zip (take (min (length xs) (min (length ys) (length zs))) ys)
        (take (min (length xs) (min (length ys) (length zs))) zs))"
proof -
  let ?m = "min (length xs) (min (length ys) (length zs))"
  have "zip xs (zip ys zs) = take ?m (zip xs (zip ys zs))" by simp
  then show ?thesis by (simp only: take_zip)
qed

lemma doc_format_prediction_take:
  "doc_format_prediction ps ss ctx tm =
   doc_format_prediction (take (min (length ps) (length ss)) ps)
     (take (min (length ps) (length ss)) ss) ctx tm"
  unfolding doc_format_prediction_def Let_def
  by (subst zip_take_min) (rule refl)

lemma doc_format_prediction_length_le:
  "length (yielded (doc_format_prediction ps ss ctx tm)) \<le> min (length ps) (length ss)"
  using doc_loop_length_le [of "itos (vocab tm)" "zip ps ss"]
  by (simp add: doc_format_prediction_def Let_def)

lemma doc_format_prediction_valid:
  "\<forall>(p, s) \<in> set (zip ps ss). valid_index (itos (vocab tm)) p \<Longrightarrow>
   gen_error (doc_format_prediction ps ss ctx tm) = None \<and>
   length (yielded (doc_format_prediction ps ss ctx tm)) = min (length ps) (length ss)"
  using doc_loop_valid [of "zip ps ss" "itos (vocab tm)"]
  by (simp add: doc_format_prediction_def Let_def)

lemma word_format_prediction_take:
  assumes "ctx TOKEN_RANGE = Some trs"
  shows "word_format_prediction ps ss ctx tm =
   word_format_prediction (take (min (length ps) (min (length ss) (length trs))) ps)
     (take (min (length ps) (min (length ss) (length trs))) ss)
     (ctx(TOKEN_RANGE \<mapsto> take (min (length ps) (min (length ss) (length trs))) trs)) tm"
  unfolding word_format_prediction_def Let_def using assms
  by (simp add: zip3_take_min [symmetric])

lemma word_format_prediction_length_le:
  assumes "ctx TOKEN_RANGE = Some trs"
  shows "length (yielded (word_format_prediction ps ss ctx tm))
     \<le> min (length ps) (min (length ss) (length trs))"
  using word_loop_length_le [of "itos (vocab tm)" "zip ps (zip ss trs)"] assms
  by (simp add: word_format_prediction_def Let_def)

lemma word_loop_valid':
  assumes "\<forall>(p, s, t) \<in> set zs. \<forall>(wp, ws, wt) \<in> set (zip p (zip s t)). valid_index names wp"
  shows "gen_error (word_loop names zs) = None \<and> length (yielded (word_loop names zs)) = length zs"
proof (rule word_loop_valid)
  from assms show "\<forall>(p, s, t) \<in> set zs. \<forall>w \<in> set (zip p (zip s t)). valid_index names (fst w)"
    by fastforce
qed

lemma word_format_prediction_valid:
  assumes "ctx TOKEN_RANGE = Some trs"
    and "\<forall>(p, s, t) \<in> set (zip ps (zip ss trs)).
           \<forall>(wp, ws, wt) \<in> set (zip p (zip s t)). valid_index (itos (vocab tm)) wp"
  shows "gen_error (word_format_prediction ps ss ctx tm) = None \<and>
   length (yielded (word_format_prediction ps ss ctx tm))
     = min (length ps) (min (length ss) (length trs))"
  using word_loop_valid' [OF assms(2)] assms(1)
  by (simp add: word_format_prediction_def Let_def)

lemma gen_error_zip_gen:
  "gen_error g = None \<Longrightarrow> gen_error h = None \<Longrightarrow> gen_error (zip_gen g h) = None"
  by (induction g h rule: zip_gen.induct) simp_all

lemma gen_error_map_gen: "gen_error (map_gen f g) = gen_error g"
  by (induction g) simp_all

subsection \<open>Constructing a configuration\<close>

lemma construct_default:
  assumes "construct matches fs kwargs = Inr c"
    and "distinct (map field_name fs)"
    and "f \<in> set fs" and "map_of kwargs (field_name f) = None" and "field_default f = Some d"
  shows "map_of c (field_name f) = Some d"
  using assms
proof (induction fs arbitrary: c)
  case Nil
  then show ?case by simp
next
  case (Cons g fs)
  from Cons.prems(1) obtain x c' where
    c: "c = (field_name g, x) # c'" and c': "construct matches fs kwargs = Inr c'"
    by (auto split: option.splits if_splits sum.splits)
  show ?case
  proof (cases "f = g")
    case True
    with Cons.prems(1,4,5) c show ?thesis
      by (auto split: option.splits if_splits sum.splits)
  next
    case False
    with Cons.prems(3) have f: "f \<in> set fs" by simp
    from f have "field_name f \<in> field_name ` set fs" by (rule imageI)
    moreover from Cons.prems(2) have "field_name g \<notin> field_name ` set fs" by simp
    ultimately have "field_name f \<noteq> field_name g" by metis
    moreover from Cons.prems(2) have "distinct (map field_name fs)" by simp
    ultimately show ?thesis
      using Cons.IH [OF c' _ f Cons.prems(4,5)] c by simp
  qed
qed

lemma construct_succeeds_iff:
  "(\<exists>c. construct matches fs kwargs = Inr c) \<longleftrightarrow>
   (\<forall>f \<in> set fs. case map_of kwargs (field_name f) of
        Some x \<Rightarrow> matches (field_type f) x
      | None \<Rightarrow> field_default f \<noteq> None)"
proof (induction fs)
  case Nil
  then show ?case by simp
next
  case (Cons f fs)
  show ?case
  proof (cases "\<exists>c. construct matches fs kwargs = Inr c")
    case True
    then obtain c where "construct matches fs kwargs = Inr c" by blast
    with Cons.IH show ?thesis
      by (auto split: option.splits)
  next
    case False
    then obtain e where "construct matches fs kwargs = Inl e"
      by (cases "construct matches fs kwargs") auto
    with Cons.IH False show ?thesis
      by (auto split: option.splits)
  qed
qed

lemma config_fields_distinct: "distinct (map field_name (config_fields v))"
  by (cases v) (simp_all add: with_default_def required_def)

lemma required_fields_cases:
  "required_fields v =
     (if v = EnsembleTask then [''model'', ''labels'']
      else if v = JointTextTask \<or> v = ContextualIntentSlotTask then [''labels'']
      else [])"
  by (cases v) (simp_all add: required_fields_def with_default_def required_def)

lemma required_fields_member:
  "f \<in> set (config_fields v) \<Longrightarrow>
   field_name f \<in> set (required_fields v) \<longleftrightarrow> field_default f = None"
proof -
  assume f: "f \<in> set (config_fields v)"
  have inj: "inj_on field_name (set (config_fields v))"
    using config_fields_distinct [of v] by (simp add: distinct_map)
  show ?thesis
  proof
    assume "field_name f \<in> set (required_fields v)"
    then obtain g where g: "g \<in> set (config_fields v)" "field_default g = None"
        "field_name g = field_name f"
      by (auto simp: required_fields_def)
    with inj f have "g = f" by (auto dest: inj_onD)
    with g show "field_default f = None" by simp
  next
    assume "field_default f = None"
    with f show "field_name f \<in> set (required_fields v)"
      by (auto simp: required_fields_def)
  qed
qed

section \<open>Document classification records\<close>

text \<open>
  Claim C1, as amended. Let the target vocabulary hold pairwise distinct names, every
  prediction index met by the loop be a valid index into it (\<open>0 \<le> p < len\<close>) and
  every score vector have one entry per vocabulary name. Then
  \<^verbatim>\<open>DocClassificationTask.format_prediction\<close> raises nothing and yields, for each
  (prediction, score) pair in turn, the record whose \<open>prediction\<close> is the vocabulary
  name at the predicted index and whose \<open>score\<close> dictionary is the vocabulary zipped
  with the scores: one entry per name, in vocabulary order, each name with its score.
  Scores are opaque to the formatter, so they are any type \<open>'s\<close>.
\<close>

theorem doc_format_prediction_distinct:
  assumes "distinct (itos (vocab tm))"
    and "\<forall>(p, s) \<in> set (zip predictions scores).
           0 \<le> p \<and> p < int (length (itos (vocab tm))) \<and> length s = length (itos (vocab tm))"
  shows "gen_error (doc_format_prediction predictions scores ctx tm) = None \<and>
         yielded (doc_format_prediction predictions scores ctx tm) =
           map (\<lambda>(p, s). \<lparr>prediction = itos (vocab tm) ! nat p, score = zip (itos (vocab tm)) s\<rparr>)
             (zip predictions scores)"
proof -
  define names where "names = itos (vocab tm)"
  have main: "\<forall>(p, s) \<in> set pss. 0 \<le> p \<and> p < int (length names) \<and> length s = length names \<Longrightarrow>
      gen_error (doc_loop names pss) = None \<and>
      yielded (doc_loop names pss) =
        map (\<lambda>(p, s). \<lparr>prediction = names ! nat p, score = zip names s\<rparr>) pss" for pss
  proof (induction pss)
    case Nil
    then show ?case by simp
  next
    case (Cons ps pss)
    obtain p s where ps: "ps = (p, s)" by (cases ps)
    from Cons.prems ps have "py_index names p = Inr (names ! nat p)"
      by (simp add: py_index_nonneg)
    moreover from Cons.prems ps assms(1) have "score_with_name names s = zip names s"
      by (simp add: score_with_name_distinct names_def)
    moreover from Cons.prems
    have "\<forall>(p, s) \<in> set pss. 0 \<le> p \<and> p < int (length names) \<and> length s = length names"
      by simp
    ultimately show ?case using Cons.IH ps by (simp add: Let_def)
  qed
  from assms(2) main [of "zip predictions scores"] show ?thesis
    by (simp add: doc_format_prediction_def Let_def names_def)
qed

text \<open>
  The example of the spec: vocabulary \<^verbatim>\<open>["POS","NEG"]\<close>, prediction index 0 and scores
  \<^verbatim>\<open>[0.9,0.1]\<close> give \<^verbatim>\<open>{"prediction": "POS", "score": {"POS":0.9,"NEG":0.1}}\<close>.
\<close>

theorem doc_format_prediction_distinct_witness:
  "distinct [''POS'', ''NEG''] \<and>
   gen_error (doc_format_prediction [0] [[0.9, 0.1 :: real]] (Map.empty :: (nat \<times> nat) batch_context)
      \<lparr>vocab = \<lparr>itos = [''POS'', ''NEG'']\<rparr>\<rparr>) = None \<and>
   yielded (doc_format_prediction [0] [[0.9, 0.1 :: real]] (Map.empty :: (nat \<times> nat) batch_context)
      \<lparr>vocab = \<lparr>itos = [''POS'', ''NEG'']\<rparr>\<rparr>) =
     [\<lparr>prediction = ''POS'', score = [(''POS'', 0.9), (''NEG'', 0.1)]\<rparr>]"
  using doc_format_prediction_distinct
    [of "\<lparr>vocab = \<lparr>itos = [''POS'', ''NEG'']\<rparr>\<rparr>" "[0]" "[[0.9, 0.1 :: real]]" "Map.empty :: (nat \<times> nat) batch_context"]
  by simp

text \<open>
  Without distinct names the property of C1 fails. For the vocabulary \<^verbatim>\<open>["A","A"]\<close>,
  prediction index 0 and scores \<^verbatim>\<open>[1,2]\<close> the index is valid and the score vector has
  one entry per vocabulary element, yet the dictionary is \<^verbatim>\<open>{"A": 2}\<close>: one entry for
  two vocabulary elements, and the name at index 0 is not mapped to its score 1.
\<close>

theorem doc_format_prediction_duplicate_counterexample:
  "yielded (doc_format_prediction [0] [[1, 2 :: int]] (Map.empty :: (nat \<times> nat) batch_context)
      \<lparr>vocab = \<lparr>itos = [''A'', ''A'']\<rparr>\<rparr>) = [\<lparr>prediction = ''A'', score = [(''A'', 2)]\<rparr>] \<and>
   length [(''A'', 2 :: int)] \<noteq> length [''A'', ''A''] \<and>
   map_of [(''A'', 2 :: int)] ([''A'', ''A''] ! 0) \<noteq> Some ([1, 2] ! 0)"
  by (simp add: doc_format_prediction_def score_with_name_def dict_comp_def py_index_def)

section \<open>Repeated vocabulary names\<close>

text \<open>
  Claim C8. Let the target vocabulary contain a repeated name. Then every score
  dictionary of a record yielded by \<^verbatim>\<open>DocClassificationTask.format_prediction\<close>, and
  every per-token score dictionary yielded by \<^verbatim>\<open>WordTaggingTask.format_prediction\<close>, has
  strictly fewer entries than the vocabulary has elements, and it keeps for a repeated
  name only the last score paired with it (\<open>keeps_last\<close>). Read contrapositively: a
  score dictionary with one entry per vocabulary element is possible only when all
  vocabulary names are distinct.
\<close>

theorem score_mapping_duplicate_names:
  assumes "\<not> distinct (itos (vocab tm))"
  shows "(\<forall>i < length (yielded (doc_format_prediction ps ss ctx tm)).
            length (score (yielded (doc_format_prediction ps ss ctx tm) ! i))
              < length (itos (vocab tm)) \<and>
            keeps_last (itos (vocab tm)) (ss ! i)
              (score (yielded (doc_format_prediction ps ss ctx tm) ! i))) \<and>
         (\<forall>i < length (yielded (word_format_prediction wps wss wctx tm)).
            \<forall>j < length (yielded (word_format_prediction wps wss wctx tm) ! i).
              length (score (yielded (word_format_prediction wps wss wctx tm) ! i ! j))
                < length (itos (vocab tm)) \<and>
              keeps_last (itos (vocab tm)) (wss ! i ! j)
                (score (yielded (word_format_prediction wps wss wctx tm) ! i ! j)))"
proof (intro conjI allI impI)
  fix i assume "i < length (yielded (doc_format_prediction ps ss ctx tm))"
  from doc_format_prediction_nth [OF this]
  have sc: "score (yielded (doc_format_prediction ps ss ctx tm) ! i) =
      score_with_name (itos (vocab tm)) (ss ! i)" by simp
  show "length (score (yielded (doc_format_prediction ps ss ctx tm) ! i))
      < length (itos (vocab tm))"
    unfolding sc using assms by (rule score_with_name_dup)
  show "keeps_last (itos (vocab tm)) (ss ! i)
      (score (yielded (doc_format_prediction ps ss ctx tm) ! i))"
    unfolding sc by (rule keeps_last_score_with_name)
next
  fix i j
  assume "i < length (yielded (word_format_prediction wps wss wctx tm))"
    and "j < length (yielded (word_format_prediction wps wss wctx tm) ! i)"
  from word_format_prediction_nth_nth [OF this]
  have sc: "score (yielded (word_format_prediction wps wss wctx tm) ! i ! j) =
      score_with_name (itos (vocab tm)) (wss ! i ! j)" by blast
  show "length (score (yielded (word_format_prediction wps wss wctx tm) ! i ! j))
      < length (itos (vocab tm))"
    unfolding sc using assms by (rule score_with_name_dup)
  show "keeps_last (itos (vocab tm)) (wss ! i ! j)
      (score (yielded (word_format_prediction wps wss wctx tm) ! i ! j))"
    unfolding sc by (rule keeps_last_score_with_name)
qed

text \<open>
  An instance: the vocabulary \<^verbatim>\<open>["A","A"]\<close> with the scores \<^verbatim>\<open>[1,2]\<close> gives the
  dictionary \<^verbatim>\<open>{"A": 2}\<close>, for a document and for a token alike.
\<close>

theorem score_mapping_duplicate_names_witness:
  "\<not> distinct [''A'', ''A''] \<and>
   yielded (doc_format_prediction [0] [[1, 2 :: int]] (Map.empty :: (nat \<times> nat) batch_context)
     \<lparr>vocab = \<lparr>itos = [''A'', ''A'']\<rparr>\<rparr>) = [\<lparr>prediction = ''A'', score = [(''A'', 2)]\<rparr>] \<and>
   length (score (yielded (doc_format_prediction [0] [[1, 2 :: int]]
     (Map.empty :: (nat \<times> nat) batch_context) \<lparr>vocab = \<lparr>itos = [''A'', ''A'']\<rparr>\<rparr>) ! 0))
     < length (itos (vocab \<lparr>vocab = \<lparr>itos = [''A'', ''A'']\<rparr>\<rparr>)) \<and>
   keeps_last (itos (vocab \<lparr>vocab = \<lparr>itos = [''A'', ''A'']\<rparr>\<rparr>)) ([[1, 2 :: int]] ! 0)
     (score (yielded (doc_format_prediction [0] [[1, 2 :: int]]
        (Map.empty :: (nat \<times> nat) batch_context) \<lparr>vocab = \<lparr>itos = [''A'', ''A'']\<rparr>\<rparr>) ! 0)) \<and>
   length (score (yielded (word_format_prediction [[0]] [[[1, 2 :: int]]]
     [TOKEN_RANGE \<mapsto> [[(0 :: nat, 1 :: nat)]]] \<lparr>vocab = \<lparr>itos = [''A'', ''A'']\<rparr>\<rparr>) ! 0 ! 0))
     < length (itos (vocab \<lparr>vocab = \<lparr>itos = [''A'', ''A'']\<rparr>\<rparr>))"
proof -
  let ?tm = "\<lparr>vocab = \<lparr>itos = [''A'', ''A'']\<rparr>\<rparr>"
  let ?D = "yielded (doc_format_prediction [0] [[1, 2 :: int]]
      (Map.empty :: (nat \<times> nat) batch_context) ?tm)"
  let ?W = "yielded (word_format_prediction [[0]] [[[1, 2 :: int]]]
      [TOKEN_RANGE \<mapsto> [[(0 :: nat, 1 :: nat)]]] ?tm)"
  have dup: "\<not> distinct (itos (vocab ?tm))" by simp
  have D: "?D = [\<lparr>prediction = ''A'', score = [(''A'', 2)]\<rparr>]"
    by (simp add: doc_format_prediction_def score_with_name_def dict_comp_def py_index_def)
  have W: "length ?W = 1 \<and> length (?W ! 0) = 1"
    by (simp add: word_format_prediction_def score_with_name_def dict_comp_def py_index_def)
  from D have d0: "0 < length ?D" by simp
  from W have w0: "0 < length ?W" and w00: "0 < length (?W ! 0)" by simp_all
  from score_mapping_duplicate_names
    [OF dup, where ps = "[0]" and ss = "[[1, 2 :: int]]"
      and ctx = "Map.empty :: (nat \<times> nat) batch_context" and wps = "[[0]]"
      and wss = "[[[1, 2 :: int]]]" and wctx = "[TOKEN_RANGE \<mapsto> [[(0 :: nat, 1 :: nat)]]]"]
    d0 w0 w00
  have "length (score (?D ! 0)) < length (itos (vocab ?tm)) \<and>
      keeps_last (itos (vocab ?tm)) ([[1, 2 :: int]] ! 0) (score (?D ! 0)) \<and>
      length (score (?W ! 0 ! 0)) < length (itos (vocab ?tm))"
    by blast
  with D show ?thesis by simp
qed

section \<open>Sequences of different lengths\<close>

text \<open>
  Claim C5. A mismatch between the lengths of the zipped input sequences is never a
  cause of failure. Both formatters behave exactly as on the inputs cut to the length of
  the shortest sequence: \<open>n\<close> for the predictions and scores of a document batch,
  \<open>m\<close> for the predictions, the scores and the context's token-range list of a
  word-tagging batch. Neither yields more items than that. When every prediction
  index the loops visit is a valid index into the vocabulary, nothing is raised and
  exactly that many items are yielded.
\<close>

theorem format_prediction_zip_shortest:
  assumes "n = min (length ps) (length ss)"
    and "wctx TOKEN_RANGE = Some trs"
    and "m = min (length wps) (min (length wss) (length trs))"
  shows "doc_format_prediction ps ss ctx tm =
           doc_format_prediction (take n ps) (take n ss) ctx tm \<and>
         length (yielded (doc_format_prediction ps ss ctx tm)) \<le> n \<and>
         ((\<forall>(p, s) \<in> set (zip ps ss). valid_index (itos (vocab tm)) p) \<longrightarrow>
            gen_error (doc_format_prediction ps ss ctx tm) = None \<and>
            length (yielded (doc_format_prediction ps ss ctx tm)) = n) \<and>
         word_format_prediction wps wss wctx wtm =
           word_format_prediction (take m wps) (take m wss)
             (wctx(TOKEN_RANGE \<mapsto> take m trs)) wtm \<and>
         length (yielded (word_format_prediction wps wss wctx wtm)) \<le> m \<and>
         ((\<forall>(p, s, t) \<in> set (zip wps (zip wss trs)).
             \<forall>(wp, ws, wt) \<in> set (zip p (zip s t)). valid_index (itos (vocab wtm)) wp) \<longrightarrow>
            gen_error (word_format_prediction wps wss wctx wtm) = None \<and>
            length (yielded (word_format_prediction wps wss wctx wtm)) = m)"
proof (intro conjI impI)
  show "doc_format_prediction ps ss ctx tm =
      doc_format_prediction (take n ps) (take n ss) ctx tm"
    unfolding assms(1) by (rule doc_format_prediction_take)
  show "length (yielded (doc_format_prediction ps ss ctx tm)) \<le> n"
    unfolding assms(1) by (rule doc_format_prediction_length_le)
  show "word_format_prediction wps wss wctx wtm =
      word_format_prediction (take m wps) (take m wss) (wctx(TOKEN_RANGE \<mapsto> take m trs)) wtm"
    unfolding assms(3) using assms(2) by (rule word_format_prediction_take)
  show "length (yielded (word_format_prediction wps wss wctx wtm)) \<le> m"
    unfolding assms(3) using assms(2) by (rule word_format_prediction_length_le)
next
  assume "\<forall>(p, s) \<in> set (zip ps ss). valid_index (itos (vocab tm)) p"
  from doc_format_prediction_valid [where ps = ps and ss = ss and tm = tm and ctx = ctx, OF this]
  show "gen_error (doc_format_prediction ps ss ctx tm) = None"
    and "length (yielded (doc_format_prediction ps ss ctx tm)) = n"
    by (simp_all add: assms(1))
next
  assume "\<forall>(p, s, t) \<in> set (zip wps (zip wss trs)).
      \<forall>(wp, ws, wt) \<in> set (zip p (zip s t)). valid_index (itos (vocab wtm)) wp"
  from word_format_prediction_valid [where ps = wps and ss = wss and tm = wtm and ctx = wctx and trs = trs, OF assms(2) this]
  show "gen_error (word_format_prediction wps wss wctx wtm) = None"
    and "length (yielded (word_format_prediction wps wss wctx wtm)) = m"
    by (simp_all add: assms(3))
qed

text \<open>
  An instance with mismatched lengths: three document predictions against one score
  vector, and two word-tagging examples against three score rows and one token-range
  list. Each formatter yields one item and raises nothing.
\<close>

theorem format_prediction_zip_shortest_witness:
  "length (yielded (doc_format_prediction [0, 0, 0] [[1 :: int]]
      (Map.empty :: (nat \<times> nat) batch_context) \<lparr>vocab = \<lparr>itos = [''A'']\<rparr>\<rparr>)) = 1 \<and>
   gen_error (doc_format_prediction [0, 0, 0] [[1 :: int]]
      (Map.empty :: (nat \<times> nat) batch_context) \<lparr>vocab = \<lparr>itos = [''A'']\<rparr>\<rparr>) = None \<and>
   length (yielded (word_format_prediction [[0], [0]] [[[1 :: int]], [[1]], [[1]]]
      [TOKEN_RANGE \<mapsto> [[(0 :: nat, 1 :: nat)]]] \<lparr>vocab = \<lparr>itos = [''A'']\<rparr>\<rparr>)) = 1 \<and>
   gen_error (word_format_prediction [[0], [0]] [[[1 :: int]], [[1]], [[1]]]
      [TOKEN_RANGE \<mapsto> [[(0 :: nat, 1 :: nat)]]] \<lparr>vocab = \<lparr>itos = [''A'']\<rparr>\<rparr>) = None"
proof -
  let ?tm = "\<lparr>vocab = \<lparr>itos = [''A'']\<rparr>\<rparr>"
  let ?ctx = "[TOKEN_RANGE \<mapsto> [[(0 :: nat, 1 :: nat)]]]"
  have n: "1 = min (length [0 :: int, 0, 0]) (length [[1 :: int]])" by simp
  have c: "?ctx TOKEN_RANGE = Some [[(0, 1)]]" by simp
  have m: "1 = min (length [[0 :: int], [0]])
      (min (length [[[1 :: int]], [[1]], [[1]]]) (length [[(0 :: nat, 1 :: nat)]]))" by simp
  have dv: "\<forall>(p, s) \<in> set (zip [0 :: int, 0, 0] [[1 :: int]]). valid_index (itos (vocab ?tm)) p"
    by (simp add: valid_index_def)
  have wv: "\<forall>(p, s, t) \<in> set (zip [[0 :: int], [0]] (zip [[[1 :: int]], [[1]], [[1]]] [[(0 :: nat, 1 :: nat)]])).
      \<forall>(wp, ws, wt) \<in> set (zip p (zip s t)). valid_index (itos (vocab ?tm)) wp"
    by (simp add: valid_index_def)
  from format_prediction_zip_shortest
    [where ctx = "Map.empty :: (nat \<times> nat) batch_context" and wctx = ?ctx and tm = ?tm
      and wtm = ?tm and trs = "[[(0, 1)]]", OF n c m] dv wv
  show ?thesis by blast
qed

section \<open>Word tagging records\<close>

text \<open>
  Claim C3, as amended. Let the predictions, the scores and the context's token-range
  list have one entry per input example; let each example's prediction row and score
  row have at least as many entries as the example has token ranges; and let every word
  prediction the loops visit be a valid index into the vocabulary. Then
  \<^verbatim>\<open>WordTaggingTask.format_prediction\<close> raises nothing, yields as many record sequences
  as there are input examples, and each record sequence is as long as that example's
  token-range list.
\<close>

theorem word_format_prediction_lengths:
  assumes "ctx TOKEN_RANGE = Some trs"
    and "length ps = length trs" and "length ss = length trs"
    and "\<forall>(p, s, t) \<in> set (zip ps (zip ss trs)).
           length t \<le> length p \<and> length t \<le> length s \<and>
           (\<forall>(wp, ws, wt) \<in> set (zip p (zip s t)). valid_index (itos (vocab tm)) wp)"
  shows "gen_error (word_format_prediction ps ss ctx tm) = None \<and>
         length (yielded (word_format_prediction ps ss ctx tm)) = length ps \<and>
         map length (yielded (word_format_prediction ps ss ctx tm)) = map length trs"
proof -
  let ?out = "yielded (word_format_prediction ps ss ctx tm)"
  from assms(4)
  have valid: "\<forall>(p, s, t) \<in> set (zip ps (zip ss trs)).
      \<forall>(wp, ws, wt) \<in> set (zip p (zip s t)). valid_index (itos (vocab tm)) wp"
    by fastforce
  from word_format_prediction_valid
    [where ps = ps and ss = ss and tm = tm and ctx = ctx and trs = trs, OF assms(1) valid]
  have err: "gen_error (word_format_prediction ps ss ctx tm) = None"
    and len: "length ?out = length trs"
    by (simp_all add: assms(2,3))
  have "length (?out ! i) = length (trs ! i)" if i: "i < length trs" for i
  proof -
    from i len have "i < length ?out" by simp
    from word_format_prediction_nth [OF this] assms(1)
    have recs: "word_records (itos (vocab tm)) (zip (ps ! i) (zip (ss ! i) (trs ! i))) =
        Inr (?out ! i)" by simp
    from i assms(2,3) have "(ps ! i, ss ! i, trs ! i) \<in> set (zip ps (zip ss trs))"
      by (auto simp: in_set_zip)
    with assms(4) have "length (trs ! i) \<le> length (ps ! i) \<and> length (trs ! i) \<le> length (ss ! i)"
      by fastforce
    with word_records_length [OF recs] show ?thesis by simp
  qed
  with len have "map length ?out = map length trs"
    by (simp add: list_eq_iff_nth_eq)
  with err len assms(2) show ?thesis by simp
qed

text \<open>
  An instance: one example with two tokens gives one record sequence of length two.
\<close>

theorem word_format_prediction_lengths_witness:
  "gen_error (word_format_prediction [[0, 0]] [[[1 :: int], [2]]]
      [TOKEN_RANGE \<mapsto> [[(0 :: nat, 1 :: nat), (2, 3)]]] \<lparr>vocab = \<lparr>itos = [''A'']\<rparr>\<rparr>) = None \<and>
   length (yielded (word_format_prediction [[0, 0]] [[[1 :: int], [2]]]
      [TOKEN_RANGE \<mapsto> [[(0 :: nat, 1 :: nat), (2, 3)]]] \<lparr>vocab = \<lparr>itos = [''A'']\<rparr>\<rparr>)) = 1 \<and>
   map length (yielded (word_format_prediction [[0, 0]] [[[1 :: int], [2]]]
      [TOKEN_RANGE \<mapsto> [[(0 :: nat, 1 :: nat), (2, 3)]]] \<lparr>vocab = \<lparr>itos = [''A'']\<rparr>\<rparr>)) = [2]"
  using word_format_prediction_lengths
    [of "[TOKEN_RANGE \<mapsto> [[(0 :: nat, 1 :: nat), (2, 3)]]]" "[[(0 :: nat, 1 :: nat), (2, 3)]]"
      "[[0, 0]]" "[[[1 :: int], [2]]]" "\<lparr>vocab = \<lparr>itos = [''A'']\<rparr>\<rparr>"]
  by (simp add: valid_index_def)

text \<open>
  Without the condition on the rows the property of C3 fails. One example whose
  prediction row has a single entry while the context lists two token ranges for it
  yields a record sequence of length one, not two: the inner \<^verbatim>\<open>zip\<close> stops at the
  shortest of the three rows.
\<close>

theorem word_format_prediction_lengths_counterexample:
  "yielded (word_format_prediction [[0]] [[[1 :: int]]]
      [TOKEN_RANGE \<mapsto> [[(0 :: nat, 1 :: nat), (2, 3)]]] \<lparr>vocab = \<lparr>itos = [''A'']\<rparr>\<rparr>) =
     [[\<lparr>prediction = ''A'', score = [(''A'', 1)], token_range = (0, 1)\<rparr>]] \<and>
   length [\<lparr>prediction = ''A'', score = [(''A'', 1 :: int)], token_range = (0 :: nat, 1 :: nat)\<rparr>]
     \<noteq> length ([[(0 :: nat, 1 :: nat), (2, 3)]] ! 0)"
  by (simp add: word_format_prediction_def score_with_name_def dict_comp_def py_index_def)

section \<open>Joint intent and slot records\<close>

text \<open>
  Claim C4, as amended. The items \<^verbatim>\<open>JointTextTask.format_prediction\<close> yields are the
  pairwise zip of the items of \<^verbatim>\<open>DocClassificationTask.format_prediction\<close> on the
  document halves and of \<^verbatim>\<open>WordTaggingTask.format_prediction\<close> on the word halves, the
  \<open>i\<close>-th being \<^verbatim>\<open>{"intent": .., "slot": ..}\<close> of the \<open>i\<close>-th items of the two; so
  their number is the smaller of the two formatters' item counts. That number is
  \<^verbatim>\<open>min(len(doc_preds), len(word_preds))\<close>, and nothing is raised, when the document
  scores have at least one entry per document prediction, the word scores and the
  token-range list have at least one entry per word-prediction row, and every
  prediction index the loops visit is valid.
\<close>

theorem joint_format_prediction_zip:
  "yielded (joint_format_prediction (doc_preds, word_preds) (doc_scores, word_scores) ctx (doc_meta, word_meta)) =
     map (\<lambda>(i, s). \<lparr>intent = i, slot = s\<rparr>)
       (zip (yielded (doc_format_prediction doc_preds doc_scores ctx doc_meta))
            (yielded (word_format_prediction word_preds word_scores ctx word_meta))) \<and>
   length (yielded (joint_format_prediction (doc_preds, word_preds) (doc_scores, word_scores) ctx (doc_meta, word_meta))) =
     min (length (yielded (doc_format_prediction doc_preds doc_scores ctx doc_meta)))
         (length (yielded (word_format_prediction word_preds word_scores ctx word_meta))) \<and>
   (ctx TOKEN_RANGE = Some trs \<and>
    length doc_preds \<le> length doc_scores \<and> length word_preds \<le> length word_scores \<and> length word_preds \<le> length trs \<and>
    (\<forall>(p, s) \<in> set (zip doc_preds doc_scores). valid_index (itos (vocab doc_meta)) p) \<and>
    (\<forall>(p, s, t) \<in> set (zip word_preds (zip word_scores trs)).
       \<forall>(tp, ts, tt) \<in> set (zip p (zip s t)). valid_index (itos (vocab word_meta)) tp) \<longrightarrow>
    gen_error (joint_format_prediction (doc_preds, word_preds) (doc_scores, word_scores) ctx (doc_meta, word_meta)) = None \<and>
    length (yielded (joint_format_prediction (doc_preds, word_preds) (doc_scores, word_scores) ctx (doc_meta, word_meta))) =
      min (length doc_preds) (length word_preds))"
proof (intro conjI impI)
  show eq: "yielded (joint_format_prediction (doc_preds, word_preds) (doc_scores, word_scores) ctx (doc_meta, word_meta)) =
      map (\<lambda>(i, s). \<lparr>intent = i, slot = s\<rparr>)
        (zip (yielded (doc_format_prediction doc_preds doc_scores ctx doc_meta))
             (yielded (word_format_prediction word_preds word_scores ctx word_meta)))"
    by (simp add: joint_format_prediction_def yielded_map_gen yielded_zip_gen)
  show "length (yielded (joint_format_prediction (doc_preds, word_preds) (doc_scores, word_scores) ctx (doc_meta, word_meta))) =
      min (length (yielded (doc_format_prediction doc_preds doc_scores ctx doc_meta)))
          (length (yielded (word_format_prediction word_preds word_scores ctx word_meta)))"
    unfolding eq by simp
next
  assume hyps: "ctx TOKEN_RANGE = Some trs \<and>
    length doc_preds \<le> length doc_scores \<and> length word_preds \<le> length word_scores \<and> length word_preds \<le> length trs \<and>
    (\<forall>(p, s) \<in> set (zip doc_preds doc_scores). valid_index (itos (vocab doc_meta)) p) \<and>
    (\<forall>(p, s, t) \<in> set (zip word_preds (zip word_scores trs)).
       \<forall>(tp, ts, tt) \<in> set (zip p (zip s t)). valid_index (itos (vocab word_meta)) tp)"
  then have dvalid: "\<forall>(p, s) \<in> set (zip doc_preds doc_scores). valid_index (itos (vocab doc_meta)) p"
    and wvalid: "\<forall>(p, s, t) \<in> set (zip word_preds (zip word_scores trs)).
       \<forall>(tp, ts, tt) \<in> set (zip p (zip s t)). valid_index (itos (vocab word_meta)) tp"
    and tr: "ctx TOKEN_RANGE = Some trs"
    and lens: "length doc_preds \<le> length doc_scores" "length word_preds \<le> length word_scores" "length word_preds \<le> length trs"
    by blast+
  from doc_format_prediction_valid
    [where ps = doc_preds and ss = doc_scores and tm = doc_meta and ctx = ctx, OF dvalid]
  have doc: "gen_error (doc_format_prediction doc_preds doc_scores ctx doc_meta) = None"
    "length (yielded (doc_format_prediction doc_preds doc_scores ctx doc_meta)) = length doc_preds"
    using lens by simp_all
  from word_format_prediction_valid
    [where ps = word_preds and ss = word_scores and tm = word_meta and ctx = ctx and trs = trs, OF tr wvalid]
  have word: "gen_error (word_format_prediction word_preds word_scores ctx word_meta) = None"
    "length (yielded (word_format_prediction word_preds word_scores ctx word_meta)) = length word_preds"
    using lens by simp_all
  show "gen_error (joint_format_prediction (doc_preds, word_preds) (doc_scores, word_scores) ctx (doc_meta, word_meta)) = None"
    by (simp add: joint_format_prediction_def gen_error_map_gen gen_error_zip_gen doc word)
  show "length (yielded (joint_format_prediction (doc_preds, word_preds) (doc_scores, word_scores) ctx (doc_meta, word_meta))) =
      min (length doc_preds) (length word_preds)"
    by (simp add: joint_format_prediction_def yielded_map_gen yielded_zip_gen doc word)
qed

text \<open>
  An instance: two document predictions and one word-tagging example give one joint
  record.
\<close>

theorem joint_format_prediction_zip_witness:
  "gen_error (joint_format_prediction ([0, 0], [[0]]) ([[1 :: int], [1]], [[[1]]])
      [TOKEN_RANGE \<mapsto> [[(0 :: nat, 1 :: nat)]]]
      (\<lparr>vocab = \<lparr>itos = [''A'']\<rparr>\<rparr>, \<lparr>vocab = \<lparr>itos = [''B'']\<rparr>\<rparr>)) = None \<and>
   length (yielded (joint_format_prediction ([0, 0], [[0]]) ([[1 :: int], [1]], [[[1]]])
      [TOKEN_RANGE \<mapsto> [[(0 :: nat, 1 :: nat)]]]
      (\<lparr>vocab = \<lparr>itos = [''A'']\<rparr>\<rparr>, \<lparr>vocab = \<lparr>itos = [''B'']\<rparr>\<rparr>))) = min 2 1"
  using joint_format_prediction_zip
    [of "[0, 0]" "[[0]]" "[[1 :: int], [1]]" "[[[1]]]"
      "[TOKEN_RANGE \<mapsto> [[(0 :: nat, 1 :: nat)]]]"
      "\<lparr>vocab = \<lparr>itos = [''A'']\<rparr>\<rparr>" "\<lparr>vocab = \<lparr>itos = [''B'']\<rparr>\<rparr>" "[[(0 :: nat, 1 :: nat)]]"]
  by (simp add: valid_index_def)

text \<open>
  Without the conditions on the other sequences the length stated in C4 fails. With two
  document predictions and two word-prediction rows, but a token-range list of a single
  entry, the word-tagging formatter yields one item, and so does the joint formatter:
  one item, although \<^verbatim>\<open>min(len(doc_preds), len(word_preds))\<close> is two.
\<close>

theorem joint_format_prediction_zip_counterexample:
  "length (yielded (joint_format_prediction ([0, 0], [[0], [0]])
      ([[1 :: int], [1]], [[[1]], [[1]]])
      [TOKEN_RANGE \<mapsto> [[(0 :: nat, 1 :: nat)]]]
      (\<lparr>vocab = \<lparr>itos = [''A'']\<rparr>\<rparr>, \<lparr>vocab = \<lparr>itos = [''B'']\<rparr>\<rparr>))) = 1 \<and>
   min (length [0 :: int, 0]) (length [[0 :: int], [0]]) = 2"
  by (simp add: joint_format_prediction_def doc_format_prediction_def
      word_format_prediction_def score_with_name_def dict_comp_def py_index_def)

text \<open>
  Claim C10. \<^verbatim>\<open>JointTextTask.format_prediction\<close> is the zip of the document formatter and
  the word-tagging formatter, both applied to the same context \<open>ctx\<close>; only the
  predictions, the scores and the target metadata are taken apart into their document
  and word halves. Every yielded record pairs the \<open>i\<close>-th document record with the
  \<open>i\<close>-th word-tagging record sequence, and the token ranges of that sequence are the
  leading token ranges of the \<open>i\<close>-th entry of the context's token-range list. A
  context without the token-range field yields no joint record.
\<close>

theorem joint_format_prediction_shared_context:
  "joint_format_prediction (doc_preds, word_preds) (doc_scores, word_scores) ctx (doc_meta, word_meta) =
     map_gen (\<lambda>(i, s). \<lparr>intent = i, slot = s\<rparr>)
       (zip_gen (doc_format_prediction doc_preds doc_scores ctx doc_meta) (word_format_prediction word_preds word_scores ctx word_meta)) \<and>
   (\<forall>i < length (yielded (joint_format_prediction (doc_preds, word_preds) (doc_scores, word_scores) ctx (doc_meta, word_meta))).
      intent (yielded (joint_format_prediction (doc_preds, word_preds) (doc_scores, word_scores) ctx (doc_meta, word_meta)) ! i) =
        yielded (doc_format_prediction doc_preds doc_scores ctx doc_meta) ! i \<and>
      slot (yielded (joint_format_prediction (doc_preds, word_preds) (doc_scores, word_scores) ctx (doc_meta, word_meta)) ! i) =
        yielded (word_format_prediction word_preds word_scores ctx word_meta) ! i \<and>
      (\<exists>trs. ctx TOKEN_RANGE = Some trs \<and> i < length trs \<and>
         map token_range (slot (yielded (joint_format_prediction (doc_preds, word_preds) (doc_scores, word_scores) ctx (doc_meta, word_meta)) ! i)) =
           take (length (slot (yielded (joint_format_prediction (doc_preds, word_preds) (doc_scores, word_scores) ctx (doc_meta, word_meta)) ! i)))
             (trs ! i))) \<and>
   (ctx TOKEN_RANGE = None \<longrightarrow>
      yielded (joint_format_prediction (doc_preds, word_preds) (doc_scores, word_scores) ctx (doc_meta, word_meta)) = [])"
proof (intro conjI allI impI)
  let ?J = "yielded (joint_format_prediction (doc_preds, word_preds) (doc_scores, word_scores) ctx (doc_meta, word_meta))"
  let ?D = "yielded (doc_format_prediction doc_preds doc_scores ctx doc_meta)"
  let ?W = "yielded (word_format_prediction word_preds word_scores ctx word_meta)"
  have eq: "?J = map (\<lambda>(i, s). \<lparr>intent = i, slot = s\<rparr>) (zip ?D ?W)"
    by (simp add: joint_format_prediction_def yielded_map_gen yielded_zip_gen)
  show "joint_format_prediction (doc_preds, word_preds) (doc_scores, word_scores) ctx (doc_meta, word_meta) =
     map_gen (\<lambda>(i, s). \<lparr>intent = i, slot = s\<rparr>)
       (zip_gen (doc_format_prediction doc_preds doc_scores ctx doc_meta) (word_format_prediction word_preds word_scores ctx word_meta))"
    by (simp add: joint_format_prediction_def)
  {
    assume "ctx TOKEN_RANGE = None"
    then have "?W = []" by (simp add: word_format_prediction_def)
    with eq show "?J = []" by simp
  }
  fix i assume "i < length ?J"
  with eq have i: "i < length ?D" "i < length ?W" by simp_all
  with eq show intent: "intent (?J ! i) = ?D ! i" and slot: "slot (?J ! i) = ?W ! i"
    by simp_all
  show "\<exists>trs. ctx TOKEN_RANGE = Some trs \<and> i < length trs \<and>
      map token_range (slot (?J ! i)) = take (length (slot (?J ! i))) (trs ! i)"
  proof -
    from word_format_prediction_nth [OF i(2)] obtain trs where
      trs: "ctx TOKEN_RANGE = Some trs" "i < length trs" and
      recs: "word_records (itos (vocab word_meta)) (zip (word_preds ! i) (zip (word_scores ! i) (trs ! i))) = Inr (?W ! i)"
      by blast
    have len: "length (?W ! i) \<le> length (trs ! i)"
      using word_records_length [OF recs] by simp
    have "map token_range (?W ! i) = take (length (?W ! i)) (trs ! i)"
    proof (rule nth_equalityI)
      show "length (map token_range (?W ! i)) = length (take (length (?W ! i)) (trs ! i))"
        using len by simp
    next
      fix j assume "j < length (map token_range (?W ! i))"
      then have j: "j < length (?W ! i)" by simp
      from word_format_prediction_nth_nth [OF i(2) j] trs(1)
      have "token_range (?W ! i ! j) = trs ! i ! j" by auto
      with j show "map token_range (?W ! i) ! j = take (length (?W ! i)) (trs ! i) ! j"
        by simp
    qed
    with trs slot show ?thesis by simp
  qed
qed

text \<open>
  An instance with a token-range field, and one whose context has no field at all.
\<close>

theorem joint_format_prediction_shared_context_witness:
  "intent (yielded (joint_format_prediction ([0], [[0]]) ([[1 :: int]], [[[1]]])
      [TOKEN_RANGE \<mapsto> [[(0 :: nat, 1 :: nat), (2, 3)]]]
      (\<lparr>vocab = \<lparr>itos = [''A'']\<rparr>\<rparr>, \<lparr>vocab = \<lparr>itos = [''B'']\<rparr>\<rparr>)) ! 0) =
     yielded (doc_format_prediction [0] [[1 :: int]]
      [TOKEN_RANGE \<mapsto> [[(0 :: nat, 1 :: nat), (2, 3)]]] \<lparr>vocab = \<lparr>itos = [''A'']\<rparr>\<rparr>) ! 0 \<and>
   slot (yielded (joint_format_prediction ([0], [[0]]) ([[1 :: int]], [[[1]]])
      [TOKEN_RANGE \<mapsto> [[(0 :: nat, 1 :: nat), (2, 3)]]]
      (\<lparr>vocab = \<lparr>itos = [''A'']\<rparr>\<rparr>, \<lparr>vocab = \<lparr>itos = [''B'']\<rparr>\<rparr>)) ! 0) =
     yielded (word_format_prediction [[0]] [[[1 :: int]]]
      [TOKEN_RANGE \<mapsto> [[(0 :: nat, 1 :: nat), (2, 3)]]] \<lparr>vocab = \<lparr>itos = [''B'']\<rparr>\<rparr>) ! 0 \<and>
   yielded (joint_format_prediction ([0], [[0]]) ([[1 :: int]], [[[1]]])
      (Map.empty :: (nat \<times> nat) batch_context)
      (\<lparr>vocab = \<lparr>itos = [''A'']\<rparr>\<rparr>, \<lparr>vocab = \<lparr>itos = [''B'']\<rparr>\<rparr>)) = []"
proof -
  let ?ctx = "[TOKEN_RANGE \<mapsto> [[(0 :: nat, 1 :: nat), (2, 3)]]]"
  let ?dm = "\<lparr>vocab = \<lparr>itos = [''A'']\<rparr>\<rparr>"
  let ?wm = "\<lparr>vocab = \<lparr>itos = [''B'']\<rparr>\<rparr>"
  let ?J = "yielded (joint_format_prediction ([0], [[0]]) ([[1 :: int]], [[[1]]]) ?ctx (?dm, ?wm))"
  have "length ?J = 1"
    by (simp add: joint_format_prediction_def doc_format_prediction_def
        word_format_prediction_def score_with_name_def dict_comp_def py_index_def)
  then have i: "0 < length ?J" by simp
  have none: "(Map.empty :: (nat \<times> nat) batch_context) TOKEN_RANGE = None" by simp
  from joint_format_prediction_shared_context
    [where doc_preds = "[0]" and word_preds = "[[0]]" and doc_scores = "[[1 :: int]]"
      and word_scores = "[[[1]]]" and ctx = ?ctx and doc_meta = ?dm and word_meta = ?wm] i
  have "intent (?J ! 0) = yielded (doc_format_prediction [0] [[1 :: int]] ?ctx ?dm) ! 0 \<and>
      slot (?J ! 0) = yielded (word_format_prediction [[0]] [[[1 :: int]]] ?ctx ?wm) ! 0"
    by blast
  moreover from joint_format_prediction_shared_context
    [where doc_preds = "[0]" and word_preds = "[[0]]" and doc_scores = "[[1 :: int]]"
      and word_scores = "[[[1]]]" and ctx = "Map.empty :: (nat \<times> nat) batch_context"
      and doc_meta = ?dm and word_meta = ?wm] none
  have "yielded (joint_format_prediction ([0], [[0]]) ([[1 :: int]], [[[1]]])
      (Map.empty :: (nat \<times> nat) batch_context) (?dm, ?wm)) = []"
    by blast
  ultimately show ?thesis by blast
qed

section \<open>Training one sub-model of an ensemble\<close>

text \<open>
  Claim C2. For a \<^verbatim>\<open>model_id\<close> outside \<open>[0, len(models))\<close>, whatever the other
  arguments, \<^verbatim>\<open>EnsembleTask.train_single_model\<close> fails its assertion and leaves the task
  as it was: the log of trainer calls is unchanged, so the trainer was not invoked, and
  every sub-model is unchanged.
\<close>

theorem train_single_model_out_of_range:
  assumes "model_id < 0 \<or> int (length (models self)) \<le> model_id"
  shows "train_single_model self train_config model_id rank_arg world_size_arg =
           (Inl AssertionError, self)"
  using assms by (auto simp: train_single_model_def Let_def)

text \<open>
  An instance: an ensemble of two sub-models, called with \<^verbatim>\<open>model_id\<close> 2 and with \<open>-1\<close>.
  The latter would be a legal list index in Python; the assertion rejects it.
\<close>

theorem train_single_model_out_of_range_witness:
  "train_single_model
     \<lparr>models = [10 :: nat, 20], trainer = (\<lambda>c. (arg_train_iter c, arg_model c + 5)),
      data_handler = \<lparr>get_train_iter = (\<lambda>r w. [r, w]), get_eval_iter = []\<rparr>,
      metric_reporter = ''reporter'', optimizer = ''optimizer'', lr_scheduler = ''scheduler'',
      trainer_calls = []\<rparr> ''config'' 2 None None =
   (Inl AssertionError,
     \<lparr>models = [10 :: nat, 20], trainer = (\<lambda>c. (arg_train_iter c, arg_model c + 5)),
      data_handler = \<lparr>get_train_iter = (\<lambda>r w. [r, w]), get_eval_iter = []\<rparr>,
      metric_reporter = ''reporter'', optimizer = ''optimizer'', lr_scheduler = ''scheduler'',
      trainer_calls = []\<rparr>) \<and>
   fst (train_single_model
     \<lparr>models = [10 :: nat, 20], trainer = (\<lambda>c. (arg_train_iter c, arg_model c + 5)),
      data_handler = \<lparr>get_train_iter = (\<lambda>r w. [r, w]), get_eval_iter = []\<rparr>,
      metric_reporter = ''reporter'', optimizer = ''optimizer'', lr_scheduler = ''scheduler'',
      trainer_calls = []\<rparr> ''config'' (- 1) None None) = Inl AssertionError"
proof -
  let ?T = "\<lparr>models = [10 :: nat, 20], trainer = (\<lambda>c. (arg_train_iter c, arg_model c + 5)),
      data_handler = \<lparr>get_train_iter = (\<lambda>r w. [r, w]), get_eval_iter = []\<rparr>,
      metric_reporter = ''reporter'', optimizer = ''optimizer'', lr_scheduler = ''scheduler'',
      trainer_calls = []\<rparr>"
  have hi: "(2 :: int) < 0 \<or> int (length (models ?T)) \<le> 2" by simp
  have lo: "(- 1 :: int) < 0 \<or> int (length (models ?T)) \<le> - 1" by simp
  from train_single_model_out_of_range [OF hi, of "''config''" None None]
    train_single_model_out_of_range [OF lo, of "''config''" None None]
  show ?thesis by simp
qed

text \<open>
  Claim C6. For a valid \<^verbatim>\<open>model_id\<close>, \<^verbatim>\<open>EnsembleTask.train_single_model\<close> invokes the
  trainer exactly once, with the training iterator \<^verbatim>\<open>get_train_iter(rank, world_size)\<close>,
  the evaluation iterator \<^verbatim>\<open>get_eval_iter()\<close>, the sub-model at index \<^verbatim>\<open>model_id\<close>, and
  the task's metric reporter, optimizer and scheduler. Afterwards the sub-model at that
  index is the one the trainer left; every sibling sub-model, and every other component
  of the task, is unchanged. The trainer acts on the sub-model it is given, as the
  spec describes it.
\<close>

theorem train_single_model_frame:
  assumes "0 \<le> model_id" and "model_id < int (length (models self))"
    and "call = \<lparr>arg_train_iter = get_train_iter (data_handler self) rank world_size,
                  arg_eval_iter = get_eval_iter (data_handler self),
                  arg_model = models self ! nat model_id,
                  arg_metric_reporter = metric_reporter self,
                  arg_train_config = train_config,
                  arg_optimizer = optimizer self,
                  arg_lr_scheduler = lr_scheduler self\<rparr>"
    and "self' = snd (train_single_model self train_config model_id (Some rank) (Some world_size))"
  shows "trainer_calls self' = trainer_calls self @ [call] \<and>
         models self' = (models self)[nat model_id := snd (trainer self call)] \<and>
         length (models self') = length (models self) \<and>
         (\<forall>j < length (models self). j \<noteq> nat model_id \<longrightarrow> models self' ! j = models self ! j) \<and>
         trainer self' = trainer self \<and> data_handler self' = data_handler self \<and>
         metric_reporter self' = metric_reporter self \<and> optimizer self' = optimizer self \<and>
         lr_scheduler self' = lr_scheduler self"
proof -
  from assms(1,2) have idx: "py_index (models self) model_id = Inr (models self ! nat model_id)"
    by (simp add: py_index_def)
  obtain result trained where tr: "trainer self call = (result, trained)"
    by (cases "trainer self call")
  from assms(1,2) idx tr
  have self': "self' = self\<lparr>models := (models self)[nat model_id := trained],
                            trainer_calls := trainer_calls self @ [call]\<rparr>"
    by (simp add: assms(4) train_single_model_def Let_def assms(3) [symmetric])
  show ?thesis by (simp add: self' tr)
qed

text \<open>
  An instance: training the second of two sub-models, at rank 3 of 4.
\<close>

theorem train_single_model_frame_witness:
  "models (snd (train_single_model
     \<lparr>models = [10 :: nat, 20], trainer = (\<lambda>c. (arg_train_iter c, arg_model c + 5)),
      data_handler = \<lparr>get_train_iter = (\<lambda>r w. [r, w]), get_eval_iter = []\<rparr>,
      metric_reporter = ''reporter'', optimizer = ''optimizer'', lr_scheduler = ''scheduler'',
      trainer_calls = []\<rparr> ''config'' 1 (Some 3) (Some 4))) = [10, 25] \<and>
   trainer_calls (snd (train_single_model
     \<lparr>models = [10 :: nat, 20], trainer = (\<lambda>c. (arg_train_iter c, arg_model c + 5)),
      data_handler = \<lparr>get_train_iter = (\<lambda>r w. [r, w]), get_eval_iter = []\<rparr>,
      metric_reporter = ''reporter'', optimizer = ''optimizer'', lr_scheduler = ''scheduler'',
      trainer_calls = []\<rparr> ''config'' 1 (Some 3) (Some 4))) =
     [\<lparr>arg_train_iter = [3, 4], arg_eval_iter = [], arg_model = 20,
       arg_metric_reporter = ''reporter'', arg_train_config = ''config'',
       arg_optimizer = ''optimizer'', arg_lr_scheduler = ''scheduler''\<rparr>]"
proof -
  let ?T = "\<lparr>models = [10 :: nat, 20], trainer = (\<lambda>c. (arg_train_iter c, arg_model c + 5)),
      data_handler = \<lparr>get_train_iter = (\<lambda>r w. [r, w]), get_eval_iter = []\<rparr>,
      metric_reporter = ''reporter'', optimizer = ''optimizer'', lr_scheduler = ''scheduler'',
      trainer_calls = []\<rparr>"
  have lo: "(0 :: int) \<le> 1" and hi: "1 < int (length (models ?T))" by simp_all
  from train_single_model_frame
    [where self = ?T and rank = 3 and world_size = 4 and train_config = "''config''",
      OF lo hi refl refl]
  show ?thesis by simp
qed

text \<open>
  Claim C9. For a valid \<^verbatim>\<open>model_id\<close>, \<^verbatim>\<open>EnsembleTask.train_single_model\<close> returns the
  value the trainer's call returned, as it is. An omitted \<^verbatim>\<open>rank\<close> is 0 and an omitted
  \<^verbatim>\<open>world_size\<close> is 1 in the training iterator that call receives: omitting both is
  the same as passing 0 and 1.
\<close>

theorem train_single_model_result:
  assumes "0 \<le> model_id" and "model_id < int (length (models self))"
  shows "fst (train_single_model self train_config model_id rank_arg world_size_arg) =
           Inr (fst (trainer self
             \<lparr>arg_train_iter = get_train_iter (data_handler self)
                 (case rank_arg of None \<Rightarrow> 0 | Some r \<Rightarrow> r)
                 (case world_size_arg of None \<Rightarrow> 1 | Some w \<Rightarrow> w),
               arg_eval_iter = get_eval_iter (data_handler self),
               arg_model = models self ! nat model_id,
               arg_metric_reporter = metric_reporter self,
               arg_train_config = train_config,
               arg_optimizer = optimizer self,
               arg_lr_scheduler = lr_scheduler self\<rparr>)) \<and>
         train_single_model self train_config model_id None None =
           train_single_model self train_config model_id (Some 0) (Some 1)"
proof -
  from assms have idx: "py_index (models self) model_id = Inr (models self ! nat model_id)"
    by (simp add: py_index_def)
  show ?thesis
    using assms idx by (simp add: train_single_model_def Let_def split: prod.splits)
qed

text \<open>
  An instance: a trainer that returns the training iterator it was given, here the
  pair of rank and world size, returns \<^verbatim>\<open>[0, 1]\<close> when both are omitted.
\<close>

theorem train_single_model_result_witness:
  "fst (train_single_model
     \<lparr>models = [10 :: nat, 20], trainer = (\<lambda>c. (arg_train_iter c, arg_model c + 5)),
      data_handler = \<lparr>get_train_iter = (\<lambda>r w. [r, w]), get_eval_iter = []\<rparr>,
      metric_reporter = ''reporter'', optimizer = ''optimizer'', lr_scheduler = ''scheduler'',
      trainer_calls = []\<rparr> ''config'' 1 None None) = Inr [0, 1]"
proof -
  let ?T = "\<lparr>models = [10 :: nat, 20], trainer = (\<lambda>c. (arg_train_iter c, arg_model c + 5)),
      data_handler = \<lparr>get_train_iter = (\<lambda>r w. [r, w]), get_eval_iter = []\<rparr>,
      metric_reporter = ''reporter'', optimizer = ''optimizer'', lr_scheduler = ''scheduler'',
      trainer_calls = []\<rparr>"
  have lo: "(0 :: int) \<le> 1" and hi: "1 < int (length (models ?T))" by simp_all
  from conjunct1 [OF train_single_model_result [OF lo hi, of "''config''" None None]]
  show ?thesis by simp
qed

section \<open>Defaults of the configuration classes\<close>

text \<open>
  Claim C7. For every task variant \<open>v\<close>: a field that has a default and is omitted
  from the keyword arguments holds that default in the constructed configuration;
  construction succeeds exactly when every supplied value matches its field's annotation
  and no field without a default is omitted; the fields without a default are
  \<^verbatim>\<open>model\<close> and \<^verbatim>\<open>labels\<close> of \<^verbatim>\<open>EnsembleTask\<close>, \<^verbatim>\<open>labels\<close> of \<^verbatim>\<open>JointTextTask\<close> and
  \<^verbatim>\<open>labels\<close> of \<^verbatim>\<open>ContextualIntentSlotTask\<close>, and no other; hence construction with no
  argument at all succeeds for every variant but these three. The statement covers the
  fields the class bodies of this unit declare.
\<close>

theorem config_defaults:
  "(\<forall>f \<in> set (config_fields v). \<forall>d.
      field_default f = Some d \<and> map_of kwargs (field_name f) = None \<and>
      construct matches (config_fields v) kwargs = Inr c \<longrightarrow>
      map_of c (field_name f) = Some d) \<and>
   ((\<exists>c'. construct matches (config_fields v) kwargs = Inr c') \<longleftrightarrow>
      (\<forall>f \<in> set (config_fields v).
         case map_of kwargs (field_name f) of
           Some x \<Rightarrow> matches (field_type f) x
         | None \<Rightarrow> field_name f \<notin> set (required_fields v))) \<and>
   required_fields v =
     (if v = EnsembleTask then [''model'', ''labels'']
      else if v = JointTextTask \<or> v = ContextualIntentSlotTask then [''labels'']
      else []) \<and>
   ((\<exists>c'. construct matches (config_fields v) [] = Inr c') \<longleftrightarrow>
      v \<notin> {EnsembleTask, JointTextTask, ContextualIntentSlotTask})"
proof (intro conjI ballI allI impI)
  fix f d
  assume f: "f \<in> set (config_fields v)"
    and "field_default f = Some d \<and> map_of kwargs (field_name f) = None \<and>
      construct matches (config_fields v) kwargs = Inr c"
  then show "map_of c (field_name f) = Some d"
    using construct_default [OF _ config_fields_distinct f] by blast
next
  have "(case map_of kwargs (field_name f) of
           Some x \<Rightarrow> matches (field_type f) x
         | None \<Rightarrow> field_name f \<notin> set (required_fields v)) =
        (case map_of kwargs (field_name f) of
           Some x \<Rightarrow> matches (field_type f) x
         | None \<Rightarrow> field_default f \<noteq> None)"
    if "f \<in> set (config_fields v)" for f
    using required_fields_member [OF that] by (simp split: option.splits)
  then show "(\<exists>c'. construct matches (config_fields v) kwargs = Inr c') \<longleftrightarrow>
      (\<forall>f \<in> set (config_fields v).
         case map_of kwargs (field_name f) of
           Some x \<Rightarrow> matches (field_type f) x
         | None \<Rightarrow> field_name f \<notin> set (required_fields v))"
    unfolding construct_succeeds_iff by simp
next
  show req: "required_fields v =
     (if v = EnsembleTask then [''model'', ''labels'']
      else if v = JointTextTask \<or> v = ContextualIntentSlotTask then [''labels'']
      else [])"
    by (rule required_fields_cases)
  have "(\<exists>c'. construct matches (config_fields v) [] = Inr c') \<longleftrightarrow>
      (\<forall>f \<in> set (config_fields v). field_default f \<noteq> None)"
    unfolding construct_succeeds_iff by simp
  also have "\<dots> \<longleftrightarrow> required_fields v = []"
    by (auto simp: required_fields_def filter_empty_conv)
  also have "\<dots> \<longleftrightarrow> v \<notin> {EnsembleTask, JointTextTask, ContextualIntentSlotTask}"
    unfolding req by auto
  finally show "(\<exists>c'. construct matches (config_fields v) [] = Inr c') \<longleftrightarrow>
      v \<notin> {EnsembleTask, JointTextTask, ContextualIntentSlotTask}" .
qed

text \<open>
  Instances: \<^verbatim>\<open>DocClassificationTask.Config()\<close> has the trainer \<^verbatim>\<open>Trainer.Config()\<close>;
  the \<^verbatim>\<open>example_config\<close> of \<^verbatim>\<open>EnsembleTask\<close>, which supplies \<^verbatim>\<open>labels\<close> and \<^verbatim>\<open>model\<close>,
  has the trainer \<^verbatim>\<open>EnsembleTrainer.Config()\<close>; \<^verbatim>\<open>EnsembleTask.Config()\<close> fails.
\<close>

theorem config_defaults_witness:
  "(\<exists>c. construct (\<lambda>t x. True) (config_fields DocClassificationTask) [] = Inr c \<and>
        map_of c ''trainer'' = Some (Instance ''Trainer.Config'' [])) \<and>
   (\<exists>c. construct (\<lambda>t x. True) (config_fields EnsembleTask)
          [(''labels'', ListOf [Instance ''DocLabelConfig'' [], Instance ''WordLabelConfig'' []]),
           (''model'', Instance ''BaggingDocEnsemble.Config''
              [(''models'', ListOf [Instance ''DocModel.Config'' []])])] = Inr c \<and>
        map_of c ''trainer'' = Some (Instance ''EnsembleTrainer.Config'' [])) \<and>
   (\<nexists>c. construct (\<lambda>t x. True) (config_fields EnsembleTask) [] = Inr c)"
proof (intro conjI)
  let ?m = "\<lambda>(t :: annotation) (x :: config_value). True"
  let ?kw = "[(''labels'', ListOf [Instance ''DocLabelConfig'' [], Instance ''WordLabelConfig'' []]),
      (''model'', Instance ''BaggingDocEnsemble.Config''
         [(''models'', ListOf [Instance ''DocModel.Config'' []])])]"
  let ?doc_trainer = "with_default ''trainer'' (Cls ''Trainer.Config'') (Instance ''Trainer.Config'' [])"
  let ?ens_trainer = "with_default ''trainer'' (Cls ''EnsembleTrainer.Config'')
      (Instance ''EnsembleTrainer.Config'' [])"
  note doc = config_defaults [where v = DocClassificationTask and kwargs = "[]" and matches = ?m]
  note ens = config_defaults [where v = EnsembleTask and kwargs = ?kw and matches = ?m]
  note ens0 = config_defaults [where v = EnsembleTask and kwargs = "[]" and matches = ?m]
  have "\<exists>c. construct ?m (config_fields DocClassificationTask) [] = Inr c"
    using doc by simp
  then obtain c where c: "construct ?m (config_fields DocClassificationTask) [] = Inr c" ..
  have "?doc_trainer \<in> set (config_fields DocClassificationTask)" by simp
  moreover have "field_default ?doc_trainer = Some (Instance ''Trainer.Config'' [])"
    and "map_of [] (field_name ?doc_trainer) = (None :: config_value option)"
    by (simp_all add: with_default_def)
  ultimately have "map_of c (field_name ?doc_trainer) = Some (Instance ''Trainer.Config'' [])"
    using doc [where c = c] c by blast
  with c show "\<exists>c. construct ?m (config_fields DocClassificationTask) [] = Inr c \<and>
      map_of c ''trainer'' = Some (Instance ''Trainer.Config'' [])"
    by (auto simp: with_default_def)
  have "\<forall>f \<in> set (config_fields EnsembleTask).
      case map_of ?kw (field_name f) of
        Some x \<Rightarrow> ?m (field_type f) x
      | None \<Rightarrow> field_name f \<notin> set (required_fields EnsembleTask)"
    by (simp add: with_default_def required_def required_fields_def)
  with ens have "\<exists>c. construct ?m (config_fields EnsembleTask) ?kw = Inr c" by blast
  then obtain e where e: "construct ?m (config_fields EnsembleTask) ?kw = Inr e" ..
  have "?ens_trainer \<in> set (config_fields EnsembleTask)" by simp
  moreover have "field_default ?ens_trainer = Some (Instance ''EnsembleTrainer.Config'' [])"
    and "map_of ?kw (field_name ?ens_trainer) = None"
    by (simp_all add: with_default_def)
  ultimately have "map_of e (field_name ?ens_trainer) = Some (Instance ''EnsembleTrainer.Config'' [])"
    using ens [where c = e] e by blast
  with e show "\<exists>c. construct ?m (config_fields EnsembleTask) ?kw = Inr c \<and>
      map_of c ''trainer'' = Some (Instance ''EnsembleTrainer.Config'' [])"
    by (auto simp: with_default_def)
  show "\<nexists>c. construct ?m (config_fields EnsembleTask) [] = Inr c"
    using ens0 by simp
qed

end
